theory Spec2Isabelle
  imports Complex_Main
begin

section \<open>The robot object of \<open>robot.cpp\<close> and its collaborators\<close>

text \<open>
  The class \<open>Robot\<close> is a record of its member variables. A smart pointer member
  (\<open>motion_\<close>, \<open>dcm_\<close>, \<open>memory_\<close>, \<open>diagnostics_\<close>, \<open>manager_\<close>, \<open>nhPtr_\<close>) is a flag
  telling whether it points to an object; dereferencing a null pointer is the fault
  \<open>NullPointer\<close>.

  Every call the code makes on a collaborator (the motion, DCM and memory wrappers, the
  ROS node, the controller manager, the diagnostics object) is appended to the field
  \<open>trace\<close>, in program order, so that the order of backend operations can be stated.
  What a collaborator answers is an argument of the function that asks.
\<close>

subsection \<open>Double precision numbers\<close>

text \<open>
  The joint arrays and the precision threshold are \<open>double\<close>s, and \<open>writeJoints\<close>
  subtracts and compares them, so they are modelled as IEEE 754 binary64 values: a
  finite value (the real number it denotes; the two zeros are one value, which no
  operation used here tells apart), the two infinities, or not-a-number.

  \<open>round_to_double\<close> rounds a real number to the nearest binary64 value, ties to the
  even significand. \<open>scale_down\<close> and \<open>scale_up\<close> bring the number into the range
  \<open>2^52 \<le> |y| < 2^53\<close> of a 53-bit significand, counting the exponent \<open>e\<close> of the last
  bit, which stops at \<open>-1074\<close> for the subnormal numbers; then \<open>y\<close> is rounded to an
  integer and scaled back. A result of magnitude \<open>2^1024\<close> or more is an infinity.

  The \<open>float\<close> members (the stiffness, the values the memory wrapper returns) and the
  frequencies are only stored and copied: a \<open>float\<close> stored in a \<open>double\<close> keeps its
  value, and they are read as the numbers they denote.
\<close>

datatype double = Finite real | PlusInf | MinusInf | NaN

function scale_down :: "real \<Rightarrow> int \<Rightarrow> real \<times> int" where
  "scale_down x e = (if 2 ^ 53 \<le> \<bar>x\<bar> then scale_down (x / 2) (e + 1) else (x, e))"
  by pat_completeness auto
termination
proof (relation "measure (\<lambda>(x, e). nat \<lfloor>\<bar>x\<bar>\<rfloor>)")
  show "wf (measure (\<lambda>(x, e). nat \<lfloor>\<bar>x\<bar>\<rfloor>))" by simp
next
  fix x :: real and e :: int
  assume a: "2 ^ 53 \<le> \<bar>x\<bar>"
  then have "\<bar>x / 2\<bar> \<le> \<bar>x\<bar> - 1" by simp
  then have "\<lfloor>\<bar>x / 2\<bar>\<rfloor> \<le> \<lfloor>\<bar>x\<bar> - 1\<rfloor>" by (rule floor_mono)
  then have "\<lfloor>\<bar>x / 2\<bar>\<rfloor> < \<lfloor>\<bar>x\<bar>\<rfloor>" by simp
  moreover have "0 < \<lfloor>\<bar>x\<bar>\<rfloor>" using a by simp
  ultimately show "((x / 2, e + 1), (x, e)) \<in> measure (\<lambda>(x, e). nat \<lfloor>\<bar>x\<bar>\<rfloor>)"
    by simp
qed

declare scale_down.simps [simp del]

function scale_up :: "real \<Rightarrow> int \<Rightarrow> real \<times> int" where
  "scale_up x e =
     (if \<bar>x\<bar> < 2 ^ 52 \<and> - 1074 < e then scale_up (x * 2) (e - 1) else (x, e))"
  by pat_completeness auto
termination
  by (relation "measure (\<lambda>(x, e). nat (e + 1074))") auto

declare scale_up.simps [simp del]

definition round_half_even :: "real \<Rightarrow> int" where
  "round_half_even y =
     (let f = \<lfloor>y\<rfloor>; d = y - of_int f
      in if d < 1 / 2 then f
         else if 1 / 2 < d then f + 1
         else if even f then f else f + 1)"

definition round_to_double :: "real \<Rightarrow> double" where
  "round_to_double x =
     (if x = 0 then Finite 0
      else
        case scale_down x 0 of (x1, e1) \<Rightarrow>
        case scale_up x1 e1 of (y, e) \<Rightarrow>
          let m = round_half_even y;
              r = (if 0 \<le> e then of_int m * 2 ^ nat e else of_int m / 2 ^ nat (- e))
          in if 2 ^ 1024 \<le> \<bar>r\<bar> then (if 0 < x then PlusInf else MinusInf)
             else Finite r)"

text \<open>
  The three operations of \<open>fabs(*it_command - *it_now) > joint_precision_\<close>. A
  difference with a not-a-number, or of two equal infinities, is not-a-number; every
  comparison with a not-a-number is false.
\<close>

fun double_sub :: "double \<Rightarrow> double \<Rightarrow> double" where
  "double_sub NaN b = NaN"
| "double_sub a NaN = NaN"
| "double_sub PlusInf PlusInf = NaN"
| "double_sub MinusInf MinusInf = NaN"
| "double_sub PlusInf b = PlusInf"
| "double_sub MinusInf b = MinusInf"
| "double_sub (Finite x) PlusInf = MinusInf"
| "double_sub (Finite x) MinusInf = PlusInf"
| "double_sub (Finite x) (Finite y) = round_to_double (x - y)"

fun double_fabs :: "double \<Rightarrow> double" where
  "double_fabs (Finite x) = Finite \<bar>x\<bar>"
| "double_fabs PlusInf = PlusInf"
| "double_fabs MinusInf = PlusInf"
| "double_fabs NaN = NaN"

fun double_gt :: "double \<Rightarrow> double \<Rightarrow> bool" where
  "double_gt NaN b = False"
| "double_gt a NaN = False"
| "double_gt MinusInf b = False"
| "double_gt PlusInf PlusInf = False"
| "double_gt PlusInf b = True"
| "double_gt (Finite x) PlusInf = False"
| "double_gt (Finite x) MinusInf = True"
| "double_gt (Finite x) (Finite y) = (y < x)"

subsection \<open>Events, faults and the robot object\<close>

datatype event =
    SetStiffnessArms real real
  | Rest
  | StiffnessInterpolation "string list" real real
  | NodeHandleShutdown
  | RosShutdown
  | NewDCM real
  | NewMemory
  | MemoryGetData string
  | NewMotion
  | WakeUp
  | RobotIsWakeUp
  | ManageConcurrence
  | GetBodyNamesFromGroup "string list"
  | MemoryInit "string list"
  | MotionInit "string list"
  | DcmInit "string list"
  | GetBodyNames string
  | NewDiagnostics "string list" string
  | Subscribe string
  | Advertise string
  | NewControllerManager
  | MoveTo real real real
  | Sleep nat
  | PublishStiffness real
  | MemoryGetListData
  | DiagnosticsPublish
  | ManagerUpdate
  | DcmWriteJoints "double list"
  | MotionWriteJoints "double list"
  | GetAngles string
  | PublishJointState "double list"
  | RateSleep

datatype fault = NullPointer | OutOfRange | LengthError | HandleNotFound | InvalidIterator

text \<open>
  A \<open>JointStateHandle\<close> holds a joint name and pointers into \<open>joint_angles_\<close>,
  \<open>joint_velocities_\<close> and \<open>joint_efforts_\<close>; a \<open>JointHandle\<close> holds a state handle and
  a pointer into \<open>joint_commands_\<close>. A pointer \<open>&v[i]\<close> is the index \<open>i\<close>.
\<close>

datatype state_handle = JointStateHandle string nat nat nat

datatype joint_handle = JointHandle state_handle nat

datatype interface = JointStateInterface | PositionJointInterface

record robot =
  session_name :: string
  is_connected :: bool
  nhPtr :: bool
  body_type :: string
  topic_queue :: int
  prefix :: string
  high_freq :: real
  controller_freq :: real
  joint_precision :: double
  odom_frame :: string
  use_dcm :: bool
  use_cmd_vel :: bool
  motor_groups :: "string list"
  dcm :: bool
  memory :: bool
  motion :: bool
  diagnostics :: bool
  manager :: bool
  stiffness_data :: real
  joint_angles :: "double list"
  joint_velocities :: "double list"
  joint_efforts :: "double list"
  joint_commands :: "double list"
  jnt_state_interface :: "string \<rightharpoonup> state_handle"
  jnt_pos_interface :: "string \<rightharpoonup> joint_handle"
  interfaces :: "interface set"
  joint_states_frame_id :: string
  joint_states_name :: "string list"
  joint_states_position :: "double list"
  cmd_vel_sub :: bool
  trace :: "event list"

type_synonym 'a outcome = "(fault \<times> robot) + 'a"

definition call :: "event \<Rightarrow> robot \<Rightarrow> robot" where
  "call e s = s\<lparr>trace := trace s @ [e]\<rparr>"

text \<open>
  The constructor \<open>Robot::Robot\<close>. Members without an initialiser are default
  constructed: empty vectors and strings, null smart pointers, and the message
  \<open>stiffness_\<close> with \<open>data = 0\<close>, which is what the constructor of \<open>std_msgs::Float32\<close>
  gives. The literal \<open>0.1\<close> is the binary64 value nearest to one tenth.
\<close>

definition Robot :: robot where
  "Robot = \<lparr> session_name = ''naoqi_dcm_driver'', is_connected = False, nhPtr = True,
     body_type = '''', topic_queue = 10, prefix = ''naoqi_dcm'', high_freq = 50,
     controller_freq = 15, joint_precision = round_to_double (1 / 10), odom_frame = ''odom'',
     use_dcm = False, use_cmd_vel = False, motor_groups = [],
     dcm = False, memory = False, motion = False, diagnostics = False, manager = False,
     stiffness_data = 0,
     joint_angles = [], joint_velocities = [], joint_efforts = [], joint_commands = [],
     jnt_state_interface = Map.empty, jnt_pos_interface = Map.empty, interfaces = {},
     joint_states_frame_id = '''', joint_states_name = [], joint_states_position = [],
     cmd_vel_sub = False, trace = [] \<rparr>"

subsection \<open>\<open>Robot::setStiffness\<close>\<close>

text \<open>
  \<open>accepted\<close> is the answer of \<open>motion_->stiffnessInterpolation\<close>. The assignment to
  \<open>stiffness_.data\<close> comes first, then the pointer is dereferenced.
\<close>

definition setStiffness :: "bool \<Rightarrow> real \<Rightarrow> robot \<Rightarrow> (bool \<times> robot) outcome" where
  "setStiffness accepted stiffness s =
     (let s1 = s\<lparr>stiffness_data := stiffness\<rparr> in
      if \<not> motion s1 then Inl (NullPointer, s1)
      else
        let s2 = call (StiffnessInterpolation (motor_groups s1) stiffness 1) s1 in
        if \<not> accepted then Inr (False, s2)
        else Inr (True, s2))"

subsection \<open>\<open>Robot::stopService\<close>\<close>

text \<open>
  The answer of the backend to the stiffness request is \<open>accepted\<close>; \<open>stopService\<close>
  drops the value \<open>setStiffness\<close> returns.
\<close>

definition stopService :: "bool \<Rightarrow> robot \<Rightarrow> robot outcome" where
  "stopService accepted s =
     (case (if motion s then
              (let s1 = (if use_dcm s then call (SetStiffnessArms 0 1) s else s);
                   s2 = (if length (motor_groups s1) = 1
                         then (if motor_groups s1 ! 0 = ''Body'' then call Rest s1 else s1)
                         else s1)
               in case setStiffness accepted 0 s2 of
                    Inl f \<Rightarrow> Inl f
                  | Inr (_, s3) \<Rightarrow> Inr s3)
            else Inr s) of
        Inl f \<Rightarrow> Inl f
      | Inr s4 \<Rightarrow>
          (let s5 = s4\<lparr>is_connected := False\<rparr> in
           if nhPtr s5 then Inr (call RosShutdown (call NodeHandleShutdown s5))
           else Inr s5))"

subsection \<open>\<open>Robot::isConnected\<close>\<close>

definition isConnected :: "robot \<Rightarrow> bool" where
  "isConnected s = is_connected s"

subsection \<open>\<open>Robot::commandVelocity\<close>\<close>

record twist =
  linear_x :: real
  linear_y :: real
  linear_z :: real
  angular_x :: real
  angular_y :: real
  angular_z :: real

definition commandVelocity :: "twist \<Rightarrow> robot \<Rightarrow> robot outcome" where
  "commandVelocity msg s =
     (if \<not> motion s then Inl (NullPointer, s)
      else
        let s1 = (if use_dcm s then call (SetStiffnessArms 0 1) s else s);
            s2 = call (MoveTo (linear_x msg) (linear_y msg) (angular_z msg)) s1;
            s3 = call (Sleep 1) s2;
            s4 = (if use_dcm s3 then call (SetStiffnessArms 1 1) s3 else s3)
        in Inr s4)"

subsection \<open>\<open>Robot::readJoints\<close>\<close>

text \<open>
  The three iterators advance together and are the one index \<open>i\<close>. Only \<open>it_command\<close>
  is compared with the end of its vector; reading \<open>*it_sensor\<close> or writing \<open>*it_now\<close>
  past the end of their vectors is the fault \<open>OutOfRange\<close>, returned with the state
  reached at that moment.
\<close>

function readJoints_loop :: "double list \<Rightarrow> nat \<Rightarrow> robot \<Rightarrow> robot outcome" where
  "readJoints_loop joint_positions i s =
     (if i < length (joint_commands s) then
        (if length joint_positions \<le> i then Inl (OutOfRange, s)
         else if length (joint_angles s) \<le> i then Inl (OutOfRange, s)
         else
           let s1 = s\<lparr>joint_angles := (joint_angles s)[i := joint_positions ! i]\<rparr>;
               s2 = s1\<lparr>joint_commands := (joint_commands s1)[i := joint_positions ! i]\<rparr>
           in readJoints_loop joint_positions (i + 1) s2)
      else Inr s)"
  by pat_completeness auto
termination
  by (relation "measure (\<lambda>(js, i, s). length (joint_commands s) - i)") auto

declare readJoints_loop.simps [simp del]

definition readJoints :: "double list \<Rightarrow> robot \<Rightarrow> robot outcome" where
  "readJoints joint_positions s =
     (if \<not> memory s then Inl (NullPointer, s)
      else readJoints_loop joint_positions 0 (call MemoryGetListData s))"

subsection \<open>\<open>Robot::writeJoints\<close>\<close>

text \<open>
  The search for a changed joint. The loop ends when \<open>it_command\<close> equals the end of
  \<open>joint_commands_\<close>; \<open>it_now\<close> is not compared with anything, so reading it past the end
  of \<open>joint_angles_\<close> is a fault. The result is the value of \<open>changed\<close>.
\<close>

function writeJoints_changed :: "robot \<Rightarrow> nat \<Rightarrow> fault + bool" where
  "writeJoints_changed s i =
     (if i = length (joint_commands s) then Inr False
      else if length (joint_commands s) < i then Inl OutOfRange
      else if length (joint_angles s) \<le> i then Inl OutOfRange
      else
        let diff = double_fabs (double_sub (joint_commands s ! i) (joint_angles s ! i)) in
        if double_gt diff (joint_precision s) then Inr True
        else writeJoints_changed s (i + 1))"
  by pat_completeness auto
termination
  by (relation "measure (\<lambda>(s, i). length (joint_commands s) - i)") auto

declare writeJoints_changed.simps [simp del]

definition writeJoints :: "robot \<Rightarrow> robot outcome" where
  "writeJoints s =
     (case writeJoints_changed s 0 of
        Inl f \<Rightarrow> Inl (f, s)
      | Inr changed \<Rightarrow>
          if \<not> changed then Inr s
          else if use_dcm s then
            (if \<not> dcm s then Inl (NullPointer, s)
             else Inr (call (DcmWriteJoints (joint_commands s)) s))
          else
            (if \<not> motion s then Inl (NullPointer, s)
             else Inr (call (MotionWriteJoints (joint_commands s)) s)))"

subsection \<open>\<open>Robot::ignoreMimicJoints\<close>\<close>

text \<open>
  \<open>str_find s pat\<close> is \<open>s.find(pat)\<close>: the position of the first occurrence of \<open>pat\<close> in
  \<open>s\<close>, and \<open>None\<close> for \<open>std::string::npos\<close>.
\<close>

fun str_find :: "string \<Rightarrow> string \<Rightarrow> nat option" where
  "str_find [] pat = (if pat = [] then Some 0 else None)"
| "str_find (c # cs) pat =
     (if take (length pat) (c # cs) = pat then Some 0
      else map_option Suc (str_find cs pat))"

text \<open>The condition of the \<open>if\<close>; in C++ \<open>&&\<close> binds tighter than \<open>||\<close>.\<close>

definition is_mimic :: "string \<Rightarrow> string \<Rightarrow> bool" where
  "is_mimic bt name =
     (str_find name ''Wheel'' \<noteq> None
      \<or> (name = ''RHand'' \<or> name = ''LHand'' \<or> name = ''RWristYaw'' \<or> name = ''LWristYaw'')
          \<and> bt = ''H21'')"

text \<open>
  \<open>joints->erase(it)\<close> invalidates \<open>it\<close>, and the \<open>it--\<close> that follows uses the
  invalidated iterator (stepping before \<open>begin()\<close> when the erased name was the first):
  undefined behaviour, which is the fault \<open>InvalidIterator\<close>, as a standard library with
  checked iterators reports it. So the loop reaches its end only when no name matches.
  The iterator is the index \<open>it\<close>; the loop ends when it equals the end.
\<close>

function ignoreMimicJoints_loop :: "string \<Rightarrow> string list \<Rightarrow> nat \<Rightarrow> fault + string list" where
  "ignoreMimicJoints_loop bt joints it =
     (if it = length joints then Inr joints
      else if length joints < it then Inl OutOfRange
      else if is_mimic bt (joints ! it) then Inl InvalidIterator
      else ignoreMimicJoints_loop bt joints (it + 1))"
  by pat_completeness auto
termination
  by (relation "measure (\<lambda>(bt, joints, it). length joints - it)") auto

declare ignoreMimicJoints_loop.simps [simp del]

definition ignoreMimicJoints :: "string list \<Rightarrow> robot \<Rightarrow> fault + string list" where
  "ignoreMimicJoints joints s = ignoreMimicJoints_loop (body_type s) joints 0"

subsection \<open>\<open>Robot::initializeControllers\<close>\<close>

text \<open>
  \<open>int joints_nbr = joints_names.size()\<close>: the size is cut to 32 bits and read as a
  signed number.
\<close>

definition to_int32 :: "nat \<Rightarrow> int" where
  "to_int32 n = (let m = int n mod 2 ^ 32 in if m < 2 ^ 31 then m else m - 2 ^ 32)"

text \<open>\<open>std::vector<double>::resize\<close>: cut, or filled up with zeros.\<close>

definition resize :: "nat \<Rightarrow> double list \<Rightarrow> double list" where
  "resize n xs = take n xs @ replicate (n - length xs) (Finite 0)"

text \<open>
  The resource manager behind \<open>jnt_state_interface_\<close> and \<open>jnt_pos_interface_\<close> is a
  map from joint names to handles; \<open>registerHandle\<close> stores the handle under its name,
  replacing a handle registered under that name before, and \<open>getHandle\<close> looks a name
  up. \<open>registerInterface\<close> adds the interface to the set the robot hardware offers.

  The calls of the \<open>try\<close> block are numbered in program order: three for each joint
  (\<open>registerHandle\<close>, \<open>getHandle\<close>, \<open>registerHandle\<close>), then the two \<open>registerInterface\<close>.
  \<open>throws k\<close> tells whether call number \<open>k\<close> throws a \<open>ros::Exception\<close>, which the
  \<open>catch\<close> turns into the result false. \<open>joints_names.at(i)\<close> throws
  \<open>std::out_of_range\<close>, \<open>reserve\<close> of a negative count \<open>std::length_error\<close>, and
  \<open>getHandle\<close> of an unknown name an exception of the hardware interface; none of
  them is a \<open>ros::Exception\<close>, so none is caught here.
\<close>

function initializeControllers_loop ::
  "(nat \<Rightarrow> bool) \<Rightarrow> string list \<Rightarrow> int \<Rightarrow> nat \<Rightarrow> robot \<Rightarrow> (bool \<times> robot) outcome" where
  "initializeControllers_loop throws joints_names joints_nbr i s =
     (if int i < joints_nbr then
        (if length joints_names \<le> i then Inl (OutOfRange, s)
         else if throws (3 * i) then Inr (False, s)
         else
           let state_handle = JointStateHandle (joints_names ! i) i i i;
               s1 = s\<lparr>jnt_state_interface :=
                      (jnt_state_interface s)(joints_names ! i \<mapsto> state_handle)\<rparr>
           in if throws (3 * i + 1) then Inr (False, s1)
              else
                (case jnt_state_interface s1 (joints_names ! i) of
                   None \<Rightarrow> Inl (HandleNotFound, s1)
                 | Some h \<Rightarrow>
                     if throws (3 * i + 2) then Inr (False, s1)
                     else
                       let pos_handle = JointHandle h i;
                           s2 = s1\<lparr>jnt_pos_interface :=
                                  (jnt_pos_interface s1)(joints_names ! i \<mapsto> pos_handle)\<rparr>
                       in initializeControllers_loop throws joints_names joints_nbr (i + 1) s2))
      else if throws (3 * nat joints_nbr) then Inr (False, s)
      else
        let s1 = s\<lparr>interfaces := insert JointStateInterface (interfaces s)\<rparr> in
        if throws (3 * nat joints_nbr + 1) then Inr (False, s1)
        else Inr (True, s1\<lparr>interfaces := insert PositionJointInterface (interfaces s1)\<rparr>))"
  by pat_completeness auto
termination
  by (relation "measure (\<lambda>(throws, joints_names, joints_nbr, i, s). nat joints_nbr - i)") auto

declare initializeControllers_loop.simps [simp del]

definition initializeControllers ::
  "(nat \<Rightarrow> bool) \<Rightarrow> string list \<Rightarrow> robot \<Rightarrow> (bool \<times> robot) outcome" where
  "initializeControllers throws joints_names s =
     (let joints_nbr = to_int32 (length joints_names) in
      if joints_nbr < 0 then Inl (LengthError, s)
      else
        let s1 = s\<lparr>joint_angles := resize (nat joints_nbr) (joint_angles s)\<rparr>;
            s2 = s1\<lparr>joint_velocities := resize (nat joints_nbr) (joint_velocities s1)\<rparr>;
            s3 = s2\<lparr>joint_efforts := resize (nat joints_nbr) (joint_efforts s2)\<rparr>;
            s4 = s3\<lparr>joint_commands := resize (nat joints_nbr) (joint_commands s3)\<rparr>
        in initializeControllers_loop throws joints_names joints_nbr 0 s4)"

subsection \<open>\<open>Robot::loadParams\<close>\<close>

text \<open>
  The parameter server: \<open>getParam\<close> assigns only when the parameter is set.
\<close>

record param_server =
  p_BodyType :: "string option"
  p_TopicQueue :: "int option"
  p_HighCommunicationFrequency :: "real option"
  p_ControllerFrequency :: "real option"
  p_JointPrecision :: "double option"
  p_OdomFrame :: "string option"
  p_use_dcm :: "bool option"
  p_Prefix :: "string option"
  p_motor_groups :: "string option"

definition getParam :: "'a option \<Rightarrow> 'a \<Rightarrow> 'a" where
  "getParam p v = (case p of None \<Rightarrow> v | Some w \<Rightarrow> w)"

text \<open>\<open>boost::split\<close> at every space, empty tokens kept.\<close>

fun split_spaces :: "string \<Rightarrow> string list" where
  "split_spaces [] = [] # []"
| "split_spaces (c # cs) =
     (if c = CHR '' '' then [] # split_spaces cs
      else (case split_spaces cs of
              [] \<Rightarrow> [c] # []
            | w # ws \<Rightarrow> (c # w) # ws))"

definition loadParams :: "param_server \<Rightarrow> robot \<Rightarrow> robot" where
  "loadParams ps s =
     (let s1 = s\<lparr>body_type := getParam (p_BodyType ps) (body_type s),
                  topic_queue := getParam (p_TopicQueue ps) (topic_queue s),
                  high_freq := getParam (p_HighCommunicationFrequency ps) (high_freq s),
                  controller_freq := getParam (p_ControllerFrequency ps) (controller_freq s),
                  joint_precision := getParam (p_JointPrecision ps) (joint_precision s),
                  odom_frame := getParam (p_OdomFrame ps) (odom_frame s),
                  use_dcm := getParam (p_use_dcm ps) (use_dcm s)\<rparr>;
          s2 = s1\<lparr>prefix := getParam (p_Prefix ps) (prefix s1)\<rparr>;
          s3 = (if length (prefix s2) > 0
                then (if prefix s2 ! (length (prefix s2) - 1) \<noteq> CHR ''/''
                      then s2\<lparr>prefix := prefix s2 @ ''/''\<rparr> else s2)
                else s2);
          tmp = getParam (p_motor_groups ps) [];
          s4 = s3\<lparr>motor_groups := split_spaces tmp\<rparr>;
          s5 = (if length (motor_groups s4) = 1
                then (if motor_groups s4 ! 0 = [] then s4\<lparr>motor_groups := []\<rparr> else s4)
                else s4)
      in if length (motor_groups s5) = 0
         then s5\<lparr>motor_groups := motor_groups s5 @ [''LArm'', ''RArm'']\<rparr>
         else s5)"

subsection \<open>\<open>Robot::subscribe\<close>\<close>

definition subscribe :: "robot \<Rightarrow> robot outcome" where
  "subscribe s =
     (if \<not> nhPtr s then Inl (NullPointer, s)
      else
        let s1 = (if use_cmd_vel s
                  then (call (Subscribe (prefix s @ ''cmd_vel'')) s)\<lparr>cmd_vel_sub := True\<rparr>
                  else s);
            s2 = call (Advertise (prefix s1 @ ''diagnostics'')) s1;
            s3 = call (Advertise (prefix s2 @ ''stiffnesses'')) s2;
            s4 = s3\<lparr>stiffness_data := 1\<rparr>;
            s5 = call (Advertise ''/joint_states'') s4
        in Inr s5)"

subsection \<open>\<open>Robot::connect\<close>\<close>

text \<open>
  What the collaborators answer during \<open>connect\<close>: the parameter server, the body type
  in the robot's memory, whether the robot is awake, the joint names of the motor
  groups, of \<open>Body\<close> and of \<open>JointActuators\<close>, whether a stiffness request of a given
  level is accepted, whether the constructor of the controller manager throws, and
  which call of the hardware interface throws.
\<close>

record backend =
  params :: param_server
  robot_type :: string
  awake :: bool
  group_names :: "string list"
  body_names :: "string list"
  actuator_names :: "string list"
  interpolation_accepted :: "real \<Rightarrow> bool"
  manager_throws :: bool
  hw_throws :: "nat \<Rightarrow> bool"

text \<open>\<open>::tolower\<close> on one character, in the C locale.\<close>

definition tolower :: "char \<Rightarrow> char" where
  "tolower c =
     (if 65 \<le> (of_char c :: nat) \<and> (of_char c :: nat) \<le> 90
      then char_of ((of_char c :: nat) + 32) else c)"

text \<open>
  \<open>connect\<close> is written in three parts. \<open>connect_wake\<close> is the code from
  \<open>is_connected_ = false\<close> down to the call of \<open>robotIsWakeUp\<close>; \<open>connect_wrappers\<close> is
  the code from \<open>memory_->init\<close> down to \<open>is_connected_ = true\<close>; \<open>connect\<close> is the whole
  function, with the decisions and the early returns.
\<close>

definition connect_wake :: "backend \<Rightarrow> robot \<Rightarrow> robot" where
  "connect_wake b s0 =
     (let s1 = s0\<lparr>is_connected := False\<rparr>;
          s2 = loadParams (params b) s1;
          s3 = (if use_dcm s2 then (call (NewDCM (controller_freq s2)) s2)\<lparr>dcm := True\<rparr>
                else s2);
          s4 = (call NewMemory s3)\<lparr>memory := True\<rparr>;
          s5 = call (MemoryGetData ''RobotConfig/Body/Type'') s4;
          s6 = (call NewMotion s5)\<lparr>motion := True\<rparr>;
          s7 = (if length (motor_groups s6) = 1
                then (if motor_groups s6 ! 0 = ''Body'' then call WakeUp s6 else s6)
                else if \<not> use_dcm s6 then call WakeUp s6
                else s6)
      in call RobotIsWakeUp s7)"

definition connect_wrappers :: "backend \<Rightarrow> string list \<Rightarrow> robot \<Rightarrow> robot" where
  "connect_wrappers b joints_names s10 =
     (let robot = map tolower (robot_type b);
          s11 = call (MemoryInit joints_names) s10;
          s12 = call (MotionInit joints_names) s11;
          s13 = (if use_dcm s12 then call (DcmInit joints_names) s12 else s12);
          s14 = s13\<lparr>joint_states_frame_id := ''base_link''\<rparr>;
          s15 = (call (GetBodyNames ''Body'') s14)\<lparr>joint_states_name := body_names b\<rparr>;
          s16 = s15\<lparr>joint_states_position :=
                   resize (length (joint_states_name s15)) (joint_states_position s15)\<rparr>;
          s17 = call (GetBodyNames ''JointActuators'') s16;
          s18 = (call (NewDiagnostics (actuator_names b) robot) s17)\<lparr>diagnostics := True\<rparr>
      in s18\<lparr>is_connected := True\<rparr>)"

definition connect :: "backend \<Rightarrow> robot \<Rightarrow> (bool \<times> robot) outcome" where
  "connect b s0 =
     (let s8 = connect_wake b s0 in
      if \<not> awake b then
        (case stopService (interpolation_accepted b 0) s8 of
           Inl f \<Rightarrow> Inl f
         | Inr s9 \<Rightarrow> Inr (False, s9))
      else
        let s9 = (if use_dcm s8 then call ManageConcurrence s8 else s8);
            s10 = call (GetBodyNamesFromGroup (motor_groups s9)) s9
        in case ignoreMimicJoints (group_names b) s10 of
             Inl f \<Rightarrow> Inl (f, s10)
           | Inr joints_names \<Rightarrow>
              (let s19 = connect_wrappers b joints_names s10 in
               case subscribe s19 of
                 Inl f \<Rightarrow> Inl f
               | Inr s20 \<Rightarrow>
                  (case setStiffness (interpolation_accepted b 1) 1 s20 of
                     Inl f \<Rightarrow> Inl f
                   | Inr (raised, s21) \<Rightarrow>
                       if \<not> raised then Inr (False, s21)
                       else
                         let s22 = call NewControllerManager s21 in
                         if manager_throws b then Inr (False, s22)
                         else
                           (case initializeControllers (hw_throws b) joints_names
                                   (s22\<lparr>manager := True\<rparr>) of
                              Inl f \<Rightarrow> Inl f
                            | Inr (initialized, s23) \<Rightarrow>
                                if \<not> initialized then Inr (False, s23)
                                else Inr (True, s23)))))"

subsection \<open>\<open>Robot::publishJointStateFromAlMotion\<close>\<close>

text \<open>
  \<open>position_data\<close> is what \<open>motion_->getAngles("Body")\<close> returns. The loop runs over
  \<open>position_data\<close> and writes into \<open>joint_states_topic_.position\<close> without comparing the
  sizes.
\<close>

function publishJointState_loop :: "double list \<Rightarrow> nat \<Rightarrow> robot \<Rightarrow> robot outcome" where
  "publishJointState_loop position_data i s =
     (if i < length position_data then
        (if length (joint_states_position s) \<le> i then Inl (OutOfRange, s)
         else publishJointState_loop position_data (i + 1)
                (s\<lparr>joint_states_position :=
                     (joint_states_position s)[i := position_data ! i]\<rparr>))
      else Inr s)"
  by pat_completeness auto
termination
  by (relation "measure (\<lambda>(position_data, i, s). length position_data - i)") auto

declare publishJointState_loop.simps [simp del]

definition publishJointStateFromAlMotion :: "double list \<Rightarrow> robot \<Rightarrow> robot outcome" where
  "publishJointStateFromAlMotion position_data s =
     (if \<not> motion s then Inl (NullPointer, s)
      else
        case publishJointState_loop position_data 0 (call (GetAngles ''Body'') s) of
          Inl f \<Rightarrow> Inl f
        | Inr s1 \<Rightarrow> Inr (call (PublishJointState (joint_states_position s1)) s1))"

subsection \<open>\<open>Robot::controllerLoop\<close>\<close>

text \<open>
  What one iteration of the loop meets: the value of \<open>ros::ok()\<close>, the vector the
  memory wrapper returns, the answer of \<open>diagnostics_->publish()\<close>, the answer to the
  stiffness request of a stop, the commands the controllers write through their
  handles during \<open>manager_->update\<close> (slot and value, in order), whether the update
  throws, and the angles of \<open>Body\<close>.
\<close>

record cycle =
  ros_ok :: bool
  sensor :: "double list"
  diag_ok :: bool
  stop_accepted :: bool
  ctrl_writes :: "(nat \<times> double) list"
  update_throws :: bool
  body_angles :: "double list"

definition controllers_update :: "(nat \<times> double) list \<Rightarrow> robot \<Rightarrow> robot" where
  "controllers_update ws s =
     (call ManagerUpdate s)
       \<lparr>joint_commands := foldl (\<lambda>cs (i, v). cs[i := v]) (joint_commands s) ws\<rparr>"

text \<open>
  One pass through the loop, from the test of the loop condition to \<open>rate.sleep()\<close>:
  \<open>Continue\<close> when the pass reaches the end of the body, \<open>Return\<close> when the function
  returns to its caller (by the loop condition, by \<open>break\<close>, or by the \<open>return\<close> of the
  \<open>catch\<close>), \<open>Fault\<close> when the pass ends in a fault.
\<close>

datatype step = Continue robot | Return robot | Fault fault robot

definition controllerLoop_body :: "cycle \<Rightarrow> robot \<Rightarrow> step" where
  "controllerLoop_body c s =
     (if \<not> ros_ok c then Return s
      else if \<not> is_connected s then Return s
      else
        let s1 = call (PublishStiffness (stiffness_data s)) s in
        case readJoints (sensor c) s1 of
          Inl (f, s') \<Rightarrow> Fault f s'
        | Inr s2 \<Rightarrow>
           if \<not> diagnostics s2 then Fault NullPointer s2
           else
             let s3 = call DiagnosticsPublish s2 in
             case (if \<not> diag_ok c then stopService (stop_accepted c) s3 else Inr s3) of
               Inl (f, s') \<Rightarrow> Fault f s'
             | Inr s4 \<Rightarrow>
                if \<not> manager s4 then Fault NullPointer s4
                else
                  let s5 = controllers_update (ctrl_writes c) s4 in
                  if update_throws c then Return s5
                  else
                    case writeJoints s5 of
                      Inl (f, s') \<Rightarrow> Fault f s'
                    | Inr s6 \<Rightarrow>
                       (case publishJointStateFromAlMotion (body_angles c) s6 of
                          Inl (f, s') \<Rightarrow> Fault f s'
                        | Inr s7 \<Rightarrow> Continue (call RateSleep s7)))"

text \<open>
  The loop runs as long as passes are supplied: with none left it is still
  \<open>Running\<close>. \<open>Returned\<close> is the return to the caller.
\<close>

datatype loop_result = Returned robot | Faulted fault robot | Running robot

fun controllerLoop :: "cycle list \<Rightarrow> robot \<Rightarrow> loop_result" where
  "controllerLoop [] s = Running s"
| "controllerLoop (c # cs) s =
     (case controllerLoop_body c s of
        Return s' \<Rightarrow> Returned s'
      | Fault f s' \<Rightarrow> Faulted f s'
      | Continue s' \<Rightarrow> controllerLoop cs s')"

definition run :: "cycle list \<Rightarrow> robot \<Rightarrow> loop_result" where
  "run cs s = controllerLoop cs s"

subsection \<open>Observing a run\<close>

text \<open>The calls that set the stiffness of the arms or move the robot.\<close>

definition arm_or_motion :: "event \<Rightarrow> bool" where
  "arm_or_motion e =
     (case e of SetStiffnessArms _ _ \<Rightarrow> True | MoveTo _ _ _ \<Rightarrow> True | _ \<Rightarrow> False)"

text \<open>The calls \<open>stopService\<close> makes in a state, in order.\<close>

definition stop_events :: "robot \<Rightarrow> event list" where
  "stop_events s =
     (if motion s then
        (if use_dcm s then [SetStiffnessArms 0 1] else [])
        @ (if motor_groups s = [''Body''] then [Rest] else [])
        @ [StiffnessInterpolation (motor_groups s) 0 1]
      else [])
     @ (if nhPtr s then [NodeHandleShutdown, RosShutdown] else [])"

text \<open>
  The states a robot object can be in between two calls: the constructed object, and
  what \<open>connect\<close>, \<open>stopService\<close>, the control loop (returned, or interrupted between
  two iterations) and the velocity callback (once subscribed) make of such a state.
\<close>

inductive reachable :: "robot \<Rightarrow> bool" where
  constructed: "reachable Robot"
| connected: "reachable s \<Longrightarrow> connect b s = Inr (ok, s') \<Longrightarrow> reachable s'"
| stopped: "reachable s \<Longrightarrow> stopService a s = Inr s' \<Longrightarrow> reachable s'"
| looped: "reachable s \<Longrightarrow> controllerLoop cs s = Returned s' \<Longrightarrow> reachable s'"
| looping: "reachable s \<Longrightarrow> controllerLoop cs s = Running s' \<Longrightarrow> reachable s'"
| commanded:
    "reachable s \<Longrightarrow> cmd_vel_sub s \<Longrightarrow> commandVelocity msg s = Inr s' \<Longrightarrow> reachable s'"

text \<open>
  What one pass of the loop works with, in a state \<open>s\<close> at the top of the pass: the
  measured angles it stores, the commands left by the controllers, the backend write
  that \<open>writeJoints\<close> makes of them (none when no command is further than the precision from
  its measured angle), and the joint positions it publishes. \<open>cycle_ready\<close> says that the
  pass meets no fault: the wrappers exist, the arrays have one length, and the vectors
  of the backend are long enough for the two copies.
\<close>

definition cycle_ready :: "cycle \<Rightarrow> robot \<Rightarrow> bool" where
  "cycle_ready c s =
     (memory s \<and> diagnostics s \<and> manager s \<and> motion s \<and> (use_dcm s \<longrightarrow> dcm s)
      \<and> length (joint_angles s) = length (joint_commands s)
      \<and> length (joint_commands s) \<le> length (sensor c)
      \<and> length (body_angles c) \<le> length (joint_states_position s))"

definition cycle_measured :: "cycle \<Rightarrow> robot \<Rightarrow> double list" where
  "cycle_measured c s = take (length (joint_commands s)) (sensor c)"

definition cycle_commands :: "cycle \<Rightarrow> robot \<Rightarrow> double list" where
  "cycle_commands c s = foldl (\<lambda>cs (i, v). cs[i := v]) (cycle_measured c s) (ctrl_writes c)"

definition cycle_write :: "cycle \<Rightarrow> robot \<Rightarrow> event list" where
  "cycle_write c s =
     (if \<exists>i < length (joint_commands s).
            double_gt (double_fabs (double_sub (cycle_commands c s ! i) (cycle_measured c s ! i)))
              (joint_precision s)
      then [if use_dcm s then DcmWriteJoints (cycle_commands c s)
            else MotionWriteJoints (cycle_commands c s)]
      else [])"

definition cycle_positions :: "cycle \<Rightarrow> robot \<Rightarrow> double list" where
  "cycle_positions c s =
     body_angles c @ drop (length (body_angles c)) (joint_states_position s)"

subsection \<open>A concrete robot\<close>

text \<open>
  A robot with two controlled joints and no parameter set, the backends that fail
  at each of the four points where \<open>connect\<close> gives up, the state \<open>connect\<close> reaches on
  the backend that does not fail, and two passes of the loop in which the diagnostics
  report not-ok: in the second the controller update throws as well.
  \<open>connect_report\<close> is what a caller sees of \<open>connect\<close>: its result, and the answer of
  \<open>isConnected\<close> afterwards.
\<close>

definition nao_backend :: backend where
  "nao_backend =
     \<lparr> params = \<lparr> p_BodyType = None, p_TopicQueue = None,
                  p_HighCommunicationFrequency = None, p_ControllerFrequency = None,
                  p_JointPrecision = None, p_OdomFrame = None, p_use_dcm = None,
                  p_Prefix = None, p_motor_groups = None \<rparr>,
       robot_type = ''Nao'', awake = True,
       group_names = [''LShoulderPitch'', ''RShoulderPitch''],
       body_names = [''HeadYaw'', ''LShoulderPitch'', ''RShoulderPitch''],
       actuator_names = [''HeadYaw'', ''LShoulderPitch'', ''RShoulderPitch''],
       interpolation_accepted = (\<lambda>level. True),
       manager_throws = False,
       hw_throws = (\<lambda>k. False) \<rparr>"

definition asleep_backend :: backend where
  "asleep_backend = nao_backend\<lparr>awake := False\<rparr>"

definition stiffness_rejecting_backend :: backend where
  "stiffness_rejecting_backend = nao_backend\<lparr>interpolation_accepted := (\<lambda>level. level \<noteq> 1)\<rparr>"

definition manager_throwing_backend :: backend where
  "manager_throwing_backend = nao_backend\<lparr>manager_throws := True\<rparr>"

definition handle_throwing_backend :: backend where
  "handle_throwing_backend = nao_backend\<lparr>hw_throws := (\<lambda>k. k = 0)\<rparr>"

definition connect_report :: "backend \<Rightarrow> robot \<Rightarrow> (bool \<times> bool) option" where
  "connect_report b s =
     (case connect b s of
        Inl f \<Rightarrow> None
      | Inr (ok, s') \<Rightarrow> Some (ok, isConnected s'))"

definition nao_connected :: robot where
  "nao_connected =
     Robot\<lparr>is_connected := True, prefix := ''naoqi_dcm/'',
           motor_groups := [''LArm'', ''RArm''],
           memory := True, motion := True, diagnostics := True, manager := True,
           stiffness_data := 1,
           joint_angles := [Finite 0, Finite 0], joint_velocities := [Finite 0, Finite 0],
           joint_efforts := [Finite 0, Finite 0], joint_commands := [Finite 0, Finite 0],
           jnt_state_interface :=
             [''LShoulderPitch'' \<mapsto> JointStateHandle ''LShoulderPitch'' 0 0 0,
              ''RShoulderPitch'' \<mapsto> JointStateHandle ''RShoulderPitch'' 1 1 1],
           jnt_pos_interface :=
             [''LShoulderPitch'' \<mapsto>
                JointHandle (JointStateHandle ''LShoulderPitch'' 0 0 0) 0,
              ''RShoulderPitch'' \<mapsto>
                JointHandle (JointStateHandle ''RShoulderPitch'' 1 1 1) 1],
           interfaces := {PositionJointInterface, JointStateInterface},
           joint_states_frame_id := ''base_link'',
           joint_states_name := [''HeadYaw'', ''LShoulderPitch'', ''RShoulderPitch''],
           joint_states_position := [Finite 0, Finite 0, Finite 0],
           trace :=
             [NewMemory, MemoryGetData ''RobotConfig/Body/Type'', NewMotion, WakeUp,
              RobotIsWakeUp, GetBodyNamesFromGroup [''LArm'', ''RArm''],
              MemoryInit [''LShoulderPitch'', ''RShoulderPitch''],
              MotionInit [''LShoulderPitch'', ''RShoulderPitch''],
              GetBodyNames ''Body'', GetBodyNames ''JointActuators'',
              NewDiagnostics [''HeadYaw'', ''LShoulderPitch'', ''RShoulderPitch''] ''nao'',
              Advertise ''naoqi_dcm/diagnostics'', Advertise ''naoqi_dcm/stiffnesses'',
              Advertise ''/joint_states'',
              StiffnessInterpolation [''LArm'', ''RArm''] 1 1, NewControllerManager]\<rparr>"

definition failing_cycle :: cycle where
  "failing_cycle =
     \<lparr> ros_ok = True, sensor = [Finite (1 / 2), Finite (1 / 4)], diag_ok = False,
       stop_accepted = True, ctrl_writes = [(0, Finite 1)], update_throws = False,
       body_angles = [Finite 0, Finite (1 / 2), Finite (1 / 4)] \<rparr>"

definition throwing_cycle :: cycle where
  "throwing_cycle = failing_cycle\<lparr>update_throws := True\<rparr>"

text \<open>
  A robot with one joint whose command \<open>1 + 2^-52\<close> and measured angle \<open>2^-53\<close> are
  binary64 values, with the precision 1: their exact difference \<open>1 + 2^-53\<close> lies
  half way between the neighbouring binary64 values 1 and \<open>1 + 2^-52\<close>.
\<close>

definition rounding_robot :: robot where
  "rounding_robot =
     Robot\<lparr>motion := True, joint_precision := Finite 1,
           joint_angles := [Finite (1 / 2 ^ 53)],
           joint_commands := [Finite (1 + 1 / 2 ^ 52)]\<rparr>"

text \<open>A hardware interface none of whose calls throws.\<close>

definition never_throws :: "nat \<Rightarrow> bool" where
  "never_throws k = False"

section \<open>Properties\<close>

subsection \<open>What each operation changes\<close>

lemma single_group: "(length gs = 1 \<and> gs ! 0 = g) = (gs = [g])"
  by (cases gs) auto

lemma stopService_eq:
  "stopService a s =
     Inr (s\<lparr>stiffness_data := (if motion s then 0 else stiffness_data s),
            is_connected := False,
            trace := trace s @ stop_events s\<rparr>)"
proof (cases "motion s")
  case False
  then show ?thesis
    by (simp add: stopService_def stop_events_def call_def Let_def)
next
  case True
  show ?thesis
  proof (cases "motor_groups s = [''Body'']")
    case b: True
    with True show ?thesis
      by (simp add: stopService_def setStiffness_def stop_events_def call_def Let_def)
  next
    case b: False
    have "\<not> (length (motor_groups s) = 1 \<and> motor_groups s ! 0 = ''Body'')"
      using b single_group [of "motor_groups s" "''Body''"] by blast
    with True b show ?thesis
      by (auto simp add: stopService_def setStiffness_def stop_events_def call_def Let_def)
  qed
qed

lemma readJoints_loop_frame:
  "readJoints_loop js i s = Inr s' \<Longrightarrow>
     s' = s\<lparr>joint_angles := joint_angles s', joint_commands := joint_commands s'\<rparr>"
proof (induction js i s rule: readJoints_loop.induct)
  case (1 js i s)
  show ?case
  proof (cases "i < length (joint_commands s)")
    case False
    with "1.prems" show ?thesis by (simp add: readJoints_loop.simps [of js i s])
  next
    case True
    with "1.prems" have a: "\<not> length js \<le> i" "\<not> length (joint_angles s) \<le> i"
      by (auto simp: readJoints_loop.simps [of js i s] split: if_splits)
    let ?s2 = "s\<lparr>joint_angles := (joint_angles s)[i := js ! i],
                  joint_commands := (joint_commands s)[i := js ! i]\<rparr>"
    from True a "1.prems" have r: "readJoints_loop js (i + 1) ?s2 = Inr s'"
      by (simp add: readJoints_loop.simps [of js i s] Let_def)
    have "s' = ?s2\<lparr>joint_angles := joint_angles s', joint_commands := joint_commands s'\<rparr>"
      using "1.IH"[OF True a refl refl] r by simp
    then show ?thesis by simp
  qed
qed

lemma publishJointState_loop_frame:
  "publishJointState_loop d i s = Inr s' \<Longrightarrow>
     s' = s\<lparr>joint_states_position := joint_states_position s'\<rparr>"
proof (induction d i s rule: publishJointState_loop.induct)
  case (1 d i s)
  show ?case
  proof (cases "i < length d")
    case False
    with "1.prems" show ?thesis by (simp add: publishJointState_loop.simps [of d i s])
  next
    case True
    with "1.prems" have a: "\<not> length (joint_states_position s) \<le> i"
      by (auto simp: publishJointState_loop.simps [of d i s] split: if_splits)
    let ?s2 = "s\<lparr>joint_states_position := (joint_states_position s)[i := d ! i]\<rparr>"
    from True a "1.prems" have r: "publishJointState_loop d (i + 1) ?s2 = Inr s'"
      by (simp add: publishJointState_loop.simps [of d i s])
    have "s' = ?s2\<lparr>joint_states_position := joint_states_position s'\<rparr>"
      using "1.IH"[OF True a] r by simp
    then show ?thesis by simp
  qed
qed

lemma initializeControllers_loop_frame:
  "initializeControllers_loop throws names n i s = Inr (ok, s') \<Longrightarrow>
     s' = s\<lparr>jnt_state_interface := jnt_state_interface s',
            jnt_pos_interface := jnt_pos_interface s',
            interfaces := interfaces s'\<rparr>"
proof (induction throws names n i s rule: initializeControllers_loop.induct)
  case (1 throws names n i s)
  show ?case
  proof (cases "int i < n")
    case False
    with "1.prems" show ?thesis
      by (auto simp: initializeControllers_loop.simps [of throws names n i s] Let_def
               split: if_splits)
  next
    case True
    let ?sh = "JointStateHandle (names ! i) i i i"
    let ?s1 = "s\<lparr>jnt_state_interface := (jnt_state_interface s)(names ! i \<mapsto> ?sh)\<rparr>"
    let ?s2 = "?s1\<lparr>jnt_pos_interface := (jnt_pos_interface ?s1)(names ! i \<mapsto> JointHandle ?sh i)\<rparr>"
    show ?thesis
    proof (cases "\<not> length names \<le> i \<and> \<not> throws (3 * i) \<and> \<not> throws (3 * i + 1)
                    \<and> \<not> throws (3 * i + 2)")
      case False
      with True "1.prems" show ?thesis
        by (auto simp: initializeControllers_loop.simps [of throws names n i s] Let_def
                       fun_upd_def
                 split: if_splits)
    next
      case c: True
      with True "1.prems"
      have r: "initializeControllers_loop throws names n (i + 1) ?s2 = Inr (ok, s')"
        by (simp add: initializeControllers_loop.simps [of throws names n i s] Let_def)
      have look: "jnt_state_interface ?s1 (names ! i) = Some ?sh" by simp
      from c have c1: "\<not> length names \<le> i" and c2: "\<not> throws (3 * i)"
        and c3: "\<not> throws (3 * i + 1)" and c4: "\<not> throws (3 * i + 2)" by simp_all
      have "s' = ?s2\<lparr>jnt_state_interface := jnt_state_interface s',
            jnt_pos_interface := jnt_pos_interface s',
            interfaces := interfaces s'\<rparr>"
        using "1.IH"[OF True c1 c2 refl refl c3 look c4 refl refl] r by simp
      then show ?thesis by simp
    qed
  qed
qed

lemma setStiffness_eq:
  "setStiffness a l s =
     (if motion s
      then Inr (a, s\<lparr>stiffness_data := l,
                       trace := trace s @ [StiffnessInterpolation (motor_groups s) l 1]\<rparr>)
      else Inl (NullPointer, s\<lparr>stiffness_data := l\<rparr>))"
  by (simp add: setStiffness_def call_def Let_def)

lemma subscribe_keeps:
  "subscribe s = Inr s' \<Longrightarrow>
     motion s' = motion s \<and> is_connected s' = is_connected s \<and> stiffness_data s' = 1"
  by (auto simp: subscribe_def call_def Let_def split: if_splits)

lemma initializeControllers_keeps:
  assumes "initializeControllers throws names s = Inr (ok, s')"
  shows "motion s' = motion s \<and> is_connected s' = is_connected s
         \<and> stiffness_data s' = stiffness_data s"
proof -
  from assms obtain s4 where
    r: "initializeControllers_loop throws names (to_int32 (length names)) 0 s4 = Inr (ok, s')"
    and k: "motion s4 = motion s \<and> is_connected s4 = is_connected s
            \<and> stiffness_data s4 = stiffness_data s"
    by (auto simp: initializeControllers_def Let_def split: if_splits)
  from initializeControllers_loop_frame [OF r]
  obtain x y z where "s' = s4\<lparr>jnt_state_interface := x, jnt_pos_interface := y,
                                 interfaces := z\<rparr>"
    by (rule that)
  then have "motion s' = motion s4 \<and> is_connected s' = is_connected s4
        \<and> stiffness_data s' = stiffness_data s4"
    by simp
  with k show ?thesis by simp
qed

lemma loadParams_keeps:
  "motion (loadParams ps s) = motion s \<and> is_connected (loadParams ps s) = is_connected s
   \<and> stiffness_data (loadParams ps s) = stiffness_data s
   \<and> nhPtr (loadParams ps s) = nhPtr s \<and> trace (loadParams ps s) = trace s"
  by (simp add: loadParams_def Let_def)

lemma connect_wake_keeps:
  "motion (connect_wake b s) \<and> stiffness_data (connect_wake b s) = stiffness_data s
   \<and> nhPtr (connect_wake b s) = nhPtr s"
  by (simp add: connect_wake_def Let_def call_def loadParams_keeps)

lemma connect_wrappers_keeps:
  "motion (connect_wrappers b js s) = motion s \<and> is_connected (connect_wrappers b js s)
   \<and> nhPtr (connect_wrappers b js s) = nhPtr s"
  by (simp add: connect_wrappers_def Let_def call_def)

text \<open>
  What \<open>connect\<close> leaves behind when it returns: the motion wrapper exists; when the
  robot was not awake the result is false, the connected flag is cleared and the
  published stiffness is 0; when the robot was awake the connected flag is set and the
  published stiffness is 1, whatever the result.
\<close>

lemma connect_outcome:
  assumes "connect b s = Inr (ok, s')"
  shows "motion s' \<and>
         (if awake b then is_connected s' \<and> stiffness_data s' = 1
          else \<not> ok \<and> \<not> is_connected s' \<and> stiffness_data s' = 0)"
proof (cases "awake b")
  case False
  with assms show ?thesis
    by (auto simp: connect_def Let_def stopService_eq connect_wake_keeps)
next
  case True
  let ?s8 = "connect_wake b s"
  let ?s10 = "call (GetBodyNamesFromGroup
                 (motor_groups (if use_dcm ?s8 then call ManageConcurrence ?s8 else ?s8)))
                 (if use_dcm ?s8 then call ManageConcurrence ?s8 else ?s8)"
  have m10: "motion ?s10" by (simp add: call_def connect_wake_keeps)
  from assms True obtain js where
    c: "(case subscribe (connect_wrappers b js ?s10) of
          Inl f \<Rightarrow> Inl f
        | Inr s20 \<Rightarrow>
            (case setStiffness (interpolation_accepted b 1) 1 s20 of
               Inl f \<Rightarrow> Inl f
             | Inr (raised, s21) \<Rightarrow>
                 if \<not> raised then Inr (False, s21)
                 else
                   let s22 = call NewControllerManager s21 in
                   if manager_throws b then Inr (False, s22)
                   else
                     (case initializeControllers (hw_throws b) js (s22\<lparr>manager := True\<rparr>) of
                        Inl f \<Rightarrow> Inl f
                      | Inr (initialized, s23) \<Rightarrow>
                          if \<not> initialized then Inr (False, s23)
                          else Inr (True, s23)))) = Inr (ok, s')"
    by (simp add: connect_def Let_def split: sum.splits)
  then obtain s20 where s20: "subscribe (connect_wrappers b js ?s10) = Inr s20"
    by (auto split: sum.splits)
  from subscribe_keeps [OF s20] m10
  have k20: "motion s20" "is_connected s20" by (simp_all add: connect_wrappers_keeps)
  from c s20 k20 have "motion s' \<and> is_connected s' \<and> stiffness_data s' = 1"
    by (auto simp: setStiffness_eq Let_def call_def
             split: if_splits sum.splits prod.splits
             dest!: initializeControllers_keeps)
  with True show ?thesis by simp
qed

lemma readJoints_keeps:
  assumes "readJoints js s = Inr s'"
  shows "motion s' = motion s \<and> stiffness_data s' = stiffness_data s
         \<and> is_connected s' = is_connected s"
proof -
  from assms have r: "readJoints_loop js 0 (call MemoryGetListData s) = Inr s'"
    by (simp add: readJoints_def split: if_splits)
  from readJoints_loop_frame [OF r] obtain a c where
    "s' = (call MemoryGetListData s)\<lparr>joint_angles := a, joint_commands := c\<rparr>"
    by (rule that)
  then show ?thesis by (simp add: call_def)
qed

lemma writeJoints_keeps:
  "writeJoints s = Inr s' \<Longrightarrow>
     motion s' = motion s \<and> stiffness_data s' = stiffness_data s
     \<and> is_connected s' = is_connected s"
  by (auto simp: writeJoints_def call_def split: if_splits sum.splits)

lemma publishJointStateFromAlMotion_keeps:
  assumes "publishJointStateFromAlMotion d s = Inr s'"
  shows "motion s' = motion s \<and> stiffness_data s' = stiffness_data s
         \<and> is_connected s' = is_connected s"
proof -
  from assms obtain s1 where
    r: "publishJointState_loop d 0 (call (GetAngles ''Body'') s) = Inr s1"
    and e: "s' = call (PublishJointState (joint_states_position s1)) s1"
    by (auto simp: publishJointStateFromAlMotion_def split: if_splits sum.splits)
  from publishJointState_loop_frame [OF r] obtain p where
    "s1 = (call (GetAngles ''Body'') s)\<lparr>joint_states_position := p\<rparr>"
    by (rule that)
  with e show ?thesis by (simp add: call_def)
qed

lemma controllers_update_keeps:
  "motion (controllers_update ws s) = motion s
   \<and> stiffness_data (controllers_update ws s) = stiffness_data s
   \<and> is_connected (controllers_update ws s) = is_connected s"
  by (simp add: controllers_update_def call_def)

lemma controllerLoop_body_limp:
  assumes "motion s \<or> stiffness_data s = 0"
    and "controllerLoop_body c s = Continue s' \<or> controllerLoop_body c s = Return s'"
  shows "motion s' \<or> stiffness_data s' = 0"
proof (cases "\<not> ros_ok c \<or> \<not> is_connected s")
  case True
  with assms show ?thesis by (auto simp: controllerLoop_body_def split: if_splits)
next
  case False
  let ?s1 = "call (PublishStiffness (stiffness_data s)) s"
  from False assms(2) obtain s2 where s2: "readJoints (sensor c) ?s1 = Inr s2"
    by (auto simp: controllerLoop_body_def Let_def split: sum.splits prod.splits)
  from readJoints_keeps [OF s2] assms(1)
  have k2: "motion s2 \<or> stiffness_data s2 = 0" by (simp add: call_def)
  define s3 where "s3 = call DiagnosticsPublish s2"
  define s4 where "s4 = (if \<not> diag_ok c
      then s3\<lparr>stiffness_data := (if motion s3 then 0 else stiffness_data s3),
              is_connected := False, trace := trace s3 @ stop_events s3\<rparr>
      else s3)"
  have k3: "motion s3 \<or> stiffness_data s3 = 0"
    using k2 by (simp add: s3_def call_def)
  have k4: "motion s4 \<or> stiffness_data s4 = 0"
    using k3 by (auto simp: s4_def)
  let ?s5 = "controllers_update (ctrl_writes c) s4"
  have k5: "motion ?s5 \<or> stiffness_data ?s5 = 0"
    using k4 by (simp add: controllers_update_keeps)
  from False assms(2) s2 have
    rest: "(if update_throws c then Return ?s5
            else case writeJoints ?s5 of
                   Inl (f, s') \<Rightarrow> Fault f s'
                 | Inr s6 \<Rightarrow>
                     (case publishJointStateFromAlMotion (body_angles c) s6 of
                        Inl (f, s') \<Rightarrow> Fault f s'
                      | Inr s7 \<Rightarrow> Continue (call RateSleep s7))) = Continue s'
           \<or> (if update_throws c then Return ?s5
            else case writeJoints ?s5 of
                   Inl (f, s') \<Rightarrow> Fault f s'
                 | Inr s6 \<Rightarrow>
                     (case publishJointStateFromAlMotion (body_angles c) s6 of
                        Inl (f, s') \<Rightarrow> Fault f s'
                      | Inr s7 \<Rightarrow> Continue (call RateSleep s7))) = Return s'"
    by (auto simp: controllerLoop_body_def Let_def stopService_eq s4_def s3_def
             split: if_splits)
  show ?thesis
  proof (cases "update_throws c")
    case True
    with rest k5 show ?thesis by auto
  next
    case False
    with rest obtain s6 s7 where s6: "writeJoints ?s5 = Inr s6"
      and s7: "publishJointStateFromAlMotion (body_angles c) s6 = Inr s7"
      and e: "s' = call RateSleep s7"
      by (auto split: sum.splits prod.splits)
    from writeJoints_keeps [OF s6] publishJointStateFromAlMotion_keeps [OF s7] k5 e
    show ?thesis by (simp add: call_def)
  qed
qed

lemma controllerLoop_limp:
  "motion s \<or> stiffness_data s = 0 \<Longrightarrow>
   controllerLoop cs s = Returned s' \<or> controllerLoop cs s = Running s' \<Longrightarrow>
   motion s' \<or> stiffness_data s' = 0"
proof (induction cs arbitrary: s)
  case Nil
  then show ?case by simp
next
  case (Cons c cs)
  show ?case
  proof (cases "controllerLoop_body c s")
    case (Continue s1)
    with Cons.prems(1) controllerLoop_body_limp [of s c s1]
    have "motion s1 \<or> stiffness_data s1 = 0" by simp
    moreover from Cons.prems(2) Continue
    have "controllerLoop cs s1 = Returned s' \<or> controllerLoop cs s1 = Running s'" by simp
    ultimately show ?thesis by (rule Cons.IH)
  next
    case (Return s1)
    with Cons.prems(2) have "s' = s1" by simp
    with Return Cons.prems(1) controllerLoop_body_limp [of s c s'] show ?thesis by simp
  next
    case (Fault f s1)
    with Cons.prems(2) show ?thesis by simp
  qed
qed

text \<open>
  In every reachable state the motion wrapper exists or the published stiffness is
  still the 0 of the constructor: the stiffness is only assigned by \<open>subscribe\<close> and
  \<open>setStiffness\<close>, and \<open>connect\<close> creates the wrapper before it calls either.
\<close>

lemma reachable_limp: "reachable s \<Longrightarrow> motion s \<or> stiffness_data s = 0"
proof (induction rule: reachable.induct)
  case constructed
  show ?case by (simp add: Robot_def)
next
  case (connected s b ok s')
  from connect_outcome [OF connected.hyps(2)] show ?case by simp
next
  case (stopped s a s')
  then show ?case by (auto simp: stopService_eq split: if_splits)
next
  case (looped s cs s')
  then show ?case using controllerLoop_limp [of s cs s'] by simp
next
  case (looping s cs s')
  then show ?case using controllerLoop_limp [of s cs s'] by simp
next
  case (commanded s msg s')
  then show ?case by (auto simp: commandVelocity_def call_def Let_def split: if_splits)
qed

lemma writeJoints_changed_eq:
  assumes "length (joint_angles s) = length (joint_commands s)"
    and "i \<le> length (joint_commands s)"
  shows "writeJoints_changed s i =
     Inr (\<exists>j. i \<le> j \<and> j < length (joint_commands s)
              \<and> double_gt (double_fabs (double_sub (joint_commands s ! j) (joint_angles s ! j)))
                  (joint_precision s))"
  using assms
proof (induction s i rule: writeJoints_changed.induct)
  case (1 s i)
  show ?case
  proof (cases "i = length (joint_commands s)")
    case True
    then show ?thesis by (subst writeJoints_changed.simps) auto
  next
    case False
    with "1.prems" have lt: "i < length (joint_commands s)" by simp
    show ?thesis
    proof (cases "double_gt (double_fabs (double_sub (joint_commands s ! i) (joint_angles s ! i)))
        (joint_precision s)")
      case True
      with lt "1.prems" show ?thesis
        by (auto simp: writeJoints_changed.simps [of s i] Let_def)
    next
      case f: False
      from lt "1.prems" have a: "\<not> length (joint_commands s) < i"
        "\<not> length (joint_angles s) \<le> i" by simp_all
      from lt have le: "i + 1 \<le> length (joint_commands s)" by simp
      have ih: "writeJoints_changed s (i + 1) =
         Inr (\<exists>j. i + 1 \<le> j \<and> j < length (joint_commands s)
              \<and> double_gt (double_fabs (double_sub (joint_commands s ! j) (joint_angles s ! j)))
                  (joint_precision s))"
        using "1.IH" [OF False a refl f "1.prems"(1) le] .
      have "(\<exists>j. i + 1 \<le> j \<and> j < length (joint_commands s)
              \<and> double_gt (double_fabs (double_sub (joint_commands s ! j) (joint_angles s ! j)))
                  (joint_precision s))
          = (\<exists>j. i \<le> j \<and> j < length (joint_commands s)
              \<and> double_gt (double_fabs (double_sub (joint_commands s ! j) (joint_angles s ! j)))
                  (joint_precision s))"
        (is "?L = ?R")
      proof
        assume ?L then show ?R by (metis Suc_eq_plus1 Suc_leD)
      next
        assume ?R
        then obtain j where j: "i \<le> j" "j < length (joint_commands s)"
          "double_gt (double_fabs (double_sub (joint_commands s ! j) (joint_angles s ! j)))
              (joint_precision s)" by blast
        with f have "j \<noteq> i" by auto
        with j have "i + 1 \<le> j" by simp
        with j show ?L by blast
      qed
      with ih lt a f show ?thesis
        by (simp add: writeJoints_changed.simps [of s i] Let_def)
    qed
  qed
qed

lemma str_find_contains:
  "(str_find s pat \<noteq> None) = (\<exists>ps ss. s = ps @ pat @ ss)"
proof (induction s)
  case Nil
  show ?case by auto
next
  case (Cons c cs)
  show ?case
  proof (cases "take (length pat) (c # cs) = pat")
    case True
    then have "c # cs = [] @ pat @ drop (length pat) (c # cs)"
      by (metis append_Nil append_take_drop_id)
    then have "\<exists>ps ss. c # cs = ps @ pat @ ss" by blast
    with True show ?thesis by simp
  next
    case False
    have "(\<exists>ps ss. c # cs = ps @ pat @ ss) = (\<exists>ps ss. cs = ps @ pat @ ss)"
    proof
      assume "\<exists>ps ss. c # cs = ps @ pat @ ss"
      then obtain ps ss where e: "c # cs = ps @ pat @ ss" by blast
      show "\<exists>ps ss. cs = ps @ pat @ ss"
      proof (cases ps)
        case Nil
        with e have "take (length pat) (c # cs) = pat" by simp
        with False show ?thesis by simp
      next
        case (Cons p ps')
        with e have "cs = ps' @ pat @ ss" by simp
        then show ?thesis by blast
      qed
    next
      assume "\<exists>ps ss. cs = ps @ pat @ ss"
      then obtain ps ss where "cs = ps @ pat @ ss" by blast
      then have "c # cs = (c # ps) @ pat @ ss" by simp
      then show "\<exists>ps ss. c # cs = ps @ pat @ ss" by blast
    qed
    with False Cons.IH show ?thesis by simp
  qed
qed

lemma ignoreMimicJoints_loop_eq:
  assumes "it \<le> length joints"
  shows "ignoreMimicJoints_loop bt joints it =
           (if \<exists>n \<in> set (drop it joints). is_mimic bt n then Inl InvalidIterator
            else Inr joints)"
  using assms
proof (induction bt joints it rule: ignoreMimicJoints_loop.induct)
  case (1 bt joints it)
  show ?case
  proof (cases "it = length joints")
    case True
    then show ?thesis by (subst ignoreMimicJoints_loop.simps) simp
  next
    case False
    with "1.prems" have lt: "it < length joints" by simp
    then have a: "\<not> length joints < it" by simp
    have d: "drop it joints = joints ! it # drop (it + 1) joints"
      using lt by (simp add: Cons_nth_drop_Suc)
    show ?thesis
    proof (cases "is_mimic bt (joints ! it)")
      case True
      with False a d show ?thesis by (subst ignoreMimicJoints_loop.simps) simp
    next
      case f: False
      have le: "it + 1 \<le> length joints" using lt by simp
      have "ignoreMimicJoints_loop bt joints (it + 1) =
           (if \<exists>n \<in> set (drop (it + 1) joints). is_mimic bt n then Inl InvalidIterator
            else Inr joints)"
        using "1.IH" [OF False a f le] .
      with False a f d show ?thesis by (subst ignoreMimicJoints_loop.simps) simp
    qed
  qed
qed

lemma ignoreMimicJoints_eq:
  "ignoreMimicJoints joints s =
     (if \<exists>n \<in> set joints. is_mimic (body_type s) n then Inl InvalidIterator
      else Inr joints)"
  using ignoreMimicJoints_loop_eq [of 0 joints "body_type s"]
  by (simp add: ignoreMimicJoints_def)

lemma writeJoints_eq:
  assumes "length (joint_angles s) = length (joint_commands s)"
    and "if use_dcm s then dcm s else motion s"
  shows "writeJoints s =
     Inr (if \<exists>i < length (joint_commands s).
               double_gt (double_fabs (double_sub (joint_commands s ! i) (joint_angles s ! i)))
                   (joint_precision s)
          then call (if use_dcm s then DcmWriteJoints (joint_commands s)
                     else MotionWriteJoints (joint_commands s)) s
          else s)"
proof -
  have "writeJoints_changed s 0 =
     Inr (\<exists>i < length (joint_commands s).
               double_gt (double_fabs (double_sub (joint_commands s ! i) (joint_angles s ! i)))
                   (joint_precision s))"
    using writeJoints_changed_eq [OF assms(1), of 0] by simp
  with assms(2) show ?thesis
    by (auto simp: writeJoints_def)
qed

lemma readJoints_loop_ok:
  assumes "N = length (joint_commands s)" "N \<le> length js" "N \<le> length (joint_angles s)"
  shows "\<exists>s'. readJoints_loop js i s = Inr s'
     \<and> length (joint_angles s') = length (joint_angles s)
     \<and> length (joint_commands s') = N
     \<and> (\<forall>k. joint_angles s' ! k = (if i \<le> k \<and> k < N then js ! k else joint_angles s ! k))
     \<and> (\<forall>k. joint_commands s' ! k
              = (if i \<le> k \<and> k < N then js ! k else joint_commands s ! k))"
  using assms
proof (induction js i s rule: readJoints_loop.induct)
  case (1 js i s)
  show ?case
  proof (cases "i < length (joint_commands s)")
    case False
    with "1.prems" show ?thesis
      by (subst readJoints_loop.simps) auto
  next
    case True
    with "1.prems" have a: "\<not> length js \<le> i" "\<not> length (joint_angles s) \<le> i"
      by simp_all
    let ?s1 = "s\<lparr>joint_angles := (joint_angles s)[i := js ! i]\<rparr>"
    let ?s2 = "?s1\<lparr>joint_commands := (joint_commands ?s1)[i := js ! i]\<rparr>"
    have p: "N = length (joint_commands ?s2)" "N \<le> length js"
      "N \<le> length (joint_angles ?s2)"
      using "1.prems" by simp_all
    from "1.IH" [OF True a refl refl p] obtain s' where
      r: "readJoints_loop js (i + 1) ?s2 = Inr s'"
      and la: "length (joint_angles s') = length (joint_angles ?s2)"
      and lc: "length (joint_commands s') = N"
      and na: "\<forall>k. joint_angles s' ! k
                 = (if i + 1 \<le> k \<and> k < N then js ! k else joint_angles ?s2 ! k)"
      and nc: "\<forall>k. joint_commands s' ! k
                 = (if i + 1 \<le> k \<and> k < N then js ! k else joint_commands ?s2 ! k)"
      by blast
    have e: "readJoints_loop js i s = Inr s'"
      using True a r by (subst readJoints_loop.simps) (simp add: Let_def)
    have iN: "i < N" using True "1.prems" by simp
    have na': "\<forall>k. joint_angles s' ! k
                 = (if i \<le> k \<and> k < N then js ! k else joint_angles s ! k)"
    proof
      fix k
      show "joint_angles s' ! k = (if i \<le> k \<and> k < N then js ! k else joint_angles s ! k)"
        using na [rule_format, of k] a iN by (cases "k = i") auto
    qed
    have nc': "\<forall>k. joint_commands s' ! k
                 = (if i \<le> k \<and> k < N then js ! k else joint_commands s ! k)"
    proof
      fix k
      show "joint_commands s' ! k
              = (if i \<le> k \<and> k < N then js ! k else joint_commands s ! k)"
        using nc [rule_format, of k] True iN by (cases "k = i") auto
    qed
    from e la lc na' nc' show ?thesis by simp
  qed
qed

lemma readJoints_ok:
  assumes "memory s" "length (joint_commands s) \<le> length js"
    "length (joint_commands s) \<le> length (joint_angles s)"
  shows "readJoints js s =
     Inr (s\<lparr>joint_angles := take (length (joint_commands s)) js
                               @ drop (length (joint_commands s)) (joint_angles s),
            joint_commands := take (length (joint_commands s)) js,
            trace := trace s @ [MemoryGetListData]\<rparr>)"
proof -
  let ?N = "length (joint_commands s)"
  let ?s0 = "call MemoryGetListData s"
  have p: "?N = length (joint_commands ?s0)" "?N \<le> length js"
    "?N \<le> length (joint_angles ?s0)"
    using assms by (simp_all add: call_def)
  from readJoints_loop_ok [OF p, of 0] obtain s' where
    r: "readJoints_loop js 0 ?s0 = Inr s'"
    and la: "length (joint_angles s') = length (joint_angles ?s0)"
    and lc: "length (joint_commands s') = ?N"
    and na: "\<forall>k. joint_angles s' ! k
               = (if 0 \<le> k \<and> k < ?N then js ! k else joint_angles ?s0 ! k)"
    and nc: "\<forall>k. joint_commands s' ! k
               = (if 0 \<le> k \<and> k < ?N then js ! k else joint_commands ?s0 ! k)"
    by blast
  have A: "joint_angles s' = take ?N js @ drop ?N (joint_angles s)"
  proof (rule nth_equalityI)
    show "length (joint_angles s') = length (take ?N js @ drop ?N (joint_angles s))"
      using la assms by (simp add: call_def)
  next
    fix k assume "k < length (joint_angles s')"
    then show "joint_angles s' ! k = (take ?N js @ drop ?N (joint_angles s)) ! k"
      using na [rule_format, of k] assms by (auto simp: nth_append call_def)
  qed
  have C: "joint_commands s' = take ?N js"
  proof (rule nth_equalityI)
    show "length (joint_commands s') = length (take ?N js)"
      using lc assms by simp
  next
    fix k assume "k < length (joint_commands s')"
    then show "joint_commands s' ! k = take ?N js ! k"
      using nc [rule_format, of k] lc by simp
  qed
  from readJoints_loop_frame [OF r] A C
  have "s' = ?s0\<lparr>joint_angles := take ?N js @ drop ?N (joint_angles s),
                 joint_commands := take ?N js\<rparr>" by simp
  with r assms(1) show ?thesis by (simp add: readJoints_def call_def)
qed

lemma controllerLoop_append:
  "controllerLoop cs1 s = Running s1 \<Longrightarrow>
     controllerLoop (cs1 @ cs2) s = controllerLoop cs2 s1"
proof (induction cs1 arbitrary: s)
  case Nil
  then show ?case by simp
next
  case (Cons c cs1)
  then show ?case by (cases "controllerLoop_body c s") simp_all
qed

lemma to_int32_small: "n < 2 ^ 31 \<Longrightarrow> to_int32 n = int n"
proof -
  assume a: "n < 2 ^ 31"
  then have "int n < 2 ^ 31" by (metis of_nat_less_iff of_nat_numeral of_nat_power)
  then show ?thesis by (simp add: to_int32_def Let_def)
qed

lemma length_resize: "length (resize n xs) = n"
  by (simp add: resize_def)

lemma initializeControllers_loop_ok:
  assumes "n = int (length names)" "i \<le> length names"
  shows "\<exists>ok s'. initializeControllers_loop throws names n i s = Inr (ok, s')
     \<and> ((\<forall>k. \<not> throws k) \<longrightarrow> ok)
     \<and> (\<forall>m. m \<notin> set (drop i names) \<longrightarrow>
            jnt_state_interface s' m = jnt_state_interface s m
            \<and> jnt_pos_interface s' m = jnt_pos_interface s m)
     \<and> (ok \<longrightarrow> (\<forall>j. i \<le> j \<and> j < length names
              \<and> (\<forall>k. j < k \<and> k < length names \<longrightarrow> names ! k \<noteq> names ! j) \<longrightarrow>
            jnt_state_interface s' (names ! j) = Some (JointStateHandle (names ! j) j j j)
            \<and> jnt_pos_interface s' (names ! j)
                = Some (JointHandle (JointStateHandle (names ! j) j j j) j)))"
  using assms
proof (induction throws names n i s rule: initializeControllers_loop.induct)
  case (1 throws names n i s)
  show ?case
  proof (cases "int i < n")
    case False
    with "1.prems" have e: "i = length names" by simp
    let ?ok0 = "\<not> throws (3 * nat n) \<and> \<not> throws (3 * nat n + 1)"
    let ?s0 = "if throws (3 * nat n) then s
               else if throws (3 * nat n + 1)
                 then s\<lparr>interfaces := insert JointStateInterface (interfaces s)\<rparr>
                 else s\<lparr>interfaces := insert PositionJointInterface
                                         (insert JointStateInterface (interfaces s))\<rparr>"
    have r: "initializeControllers_loop throws names n i s = Inr (?ok0, ?s0)"
      using False by (subst initializeControllers_loop.simps) (simp add: Let_def)
    have t: "(\<forall>k. \<not> throws k) \<longrightarrow> ?ok0" by simp
    have fr: "\<forall>m. m \<notin> set (drop i names) \<longrightarrow>
            jnt_state_interface ?s0 m = jnt_state_interface s m
            \<and> jnt_pos_interface ?s0 m = jnt_pos_interface s m" by simp
    have b: "?ok0 \<longrightarrow> (\<forall>j. i \<le> j \<and> j < length names
              \<and> (\<forall>k. j < k \<and> k < length names \<longrightarrow> names ! k \<noteq> names ! j) \<longrightarrow>
            jnt_state_interface ?s0 (names ! j) = Some (JointStateHandle (names ! j) j j j)
            \<and> jnt_pos_interface ?s0 (names ! j)
                = Some (JointHandle (JointStateHandle (names ! j) j j j) j))"
      using e by auto
    from r t fr b show ?thesis by blast
  next
    case True
    with "1.prems" have lt: "i < length names" by simp
    then have c1: "\<not> length names \<le> i" by simp
    let ?sh = "JointStateHandle (names ! i) i i i"
    let ?s1 = "s\<lparr>jnt_state_interface := (jnt_state_interface s)(names ! i \<mapsto> ?sh)\<rparr>"
    let ?s2 = "?s1\<lparr>jnt_pos_interface := (jnt_pos_interface ?s1)(names ! i \<mapsto> JointHandle ?sh i)\<rparr>"
    have mem: "names ! i \<in> set (drop i names)"
      using lt by (metis Cons_nth_drop_Suc list.set_intros(1))
    show ?thesis
    proof (cases "\<not> throws (3 * i) \<and> \<not> throws (3 * i + 1) \<and> \<not> throws (3 * i + 2)")
      case False
      let ?s0 = "if throws (3 * i) then s else ?s1"
      have r: "initializeControllers_loop throws names n i s = Inr (False, ?s0)"
        using True c1 False
        by (subst initializeControllers_loop.simps) (auto simp: Let_def)
      have t: "(\<forall>k. \<not> throws k) \<longrightarrow> False" using False by blast
      have fr: "\<forall>m. m \<notin> set (drop i names) \<longrightarrow>
            jnt_state_interface ?s0 m = jnt_state_interface s m
            \<and> jnt_pos_interface ?s0 m = jnt_pos_interface s m"
        using mem by auto
      from r t fr show ?thesis by blast
    next
      case c: True
      then have c2: "\<not> throws (3 * i)" and c3: "\<not> throws (3 * i + 1)"
        and c4: "\<not> throws (3 * i + 2)" by simp_all
      have look: "jnt_state_interface ?s1 (names ! i) = Some ?sh" by simp
      have p: "n = int (length names)" "i + 1 \<le> length names"
        using "1.prems" lt by simp_all
      from "1.IH" [OF True c1 c2 refl refl c3 look c4 refl refl p]
      obtain ok s' where
        r: "initializeControllers_loop throws names n (i + 1) ?s2 = Inr (ok, s')"
        and t: "(\<forall>k. \<not> throws k) \<longrightarrow> ok"
        and fr: "\<forall>m. m \<notin> set (drop (i + 1) names) \<longrightarrow>
            jnt_state_interface s' m = jnt_state_interface ?s2 m
            \<and> jnt_pos_interface s' m = jnt_pos_interface ?s2 m"
        and b: "ok \<longrightarrow> (\<forall>j. i + 1 \<le> j \<and> j < length names
              \<and> (\<forall>k. j < k \<and> k < length names \<longrightarrow> names ! k \<noteq> names ! j) \<longrightarrow>
            jnt_state_interface s' (names ! j) = Some (JointStateHandle (names ! j) j j j)
            \<and> jnt_pos_interface s' (names ! j)
                = Some (JointHandle (JointStateHandle (names ! j) j j j) j))"
        by blast
      have e: "initializeControllers_loop throws names n i s = Inr (ok, s')"
        using True c1 c2 c3 c4 r by (subst initializeControllers_loop.simps) (simp add: Let_def)
      have d: "drop i names = names ! i # drop (i + 1) names"
        using lt by (simp add: Cons_nth_drop_Suc)
      have fr': "\<forall>m. m \<notin> set (drop i names) \<longrightarrow>
            jnt_state_interface s' m = jnt_state_interface s m
            \<and> jnt_pos_interface s' m = jnt_pos_interface s m"
      proof (intro allI impI)
        fix m assume m: "m \<notin> set (drop i names)"
        with d have "m \<noteq> names ! i" "m \<notin> set (drop (i + 1) names)" by auto
        with fr show "jnt_state_interface s' m = jnt_state_interface s m
            \<and> jnt_pos_interface s' m = jnt_pos_interface s m" by simp
      qed
      have b': "ok \<longrightarrow> (\<forall>j. i \<le> j \<and> j < length names
              \<and> (\<forall>k. j < k \<and> k < length names \<longrightarrow> names ! k \<noteq> names ! j) \<longrightarrow>
            jnt_state_interface s' (names ! j) = Some (JointStateHandle (names ! j) j j j)
            \<and> jnt_pos_interface s' (names ! j)
                = Some (JointHandle (JointStateHandle (names ! j) j j j) j))"
      proof (intro impI allI)
        fix j assume ok: ok
          and j: "i \<le> j \<and> j < length names
              \<and> (\<forall>k. j < k \<and> k < length names \<longrightarrow> names ! k \<noteq> names ! j)"
        show "jnt_state_interface s' (names ! j) = Some (JointStateHandle (names ! j) j j j)
            \<and> jnt_pos_interface s' (names ! j)
                = Some (JointHandle (JointStateHandle (names ! j) j j j) j)"
        proof (cases "j = i")
          case True
          have notin: "names ! i \<notin> set (drop (i + 1) names)"
          proof
            assume "names ! i \<in> set (drop (i + 1) names)"
            then obtain k where k: "k < length (drop (i + 1) names)"
              and v: "drop (i + 1) names ! k = names ! i"
              by (auto simp: in_set_conv_nth)
            from k have kk: "i + 1 + k < length names" by simp
            with v have "names ! (i + 1 + k) = names ! i" by simp
            moreover from j True kk have "names ! (i + 1 + k) \<noteq> names ! i" by simp
            ultimately show False by simp
          qed
          with fr True show ?thesis by simp
        next
          case False
          with j have "i + 1 \<le> j \<and> j < length names
              \<and> (\<forall>k. j < k \<and> k < length names \<longrightarrow> names ! k \<noteq> names ! j)" by simp
          with b ok show ?thesis by blast
        qed
      qed
      from e t fr' b' show ?thesis by blast
    qed
  qed
qed

lemma publishJointState_loop_ok:
  assumes "length d \<le> length (joint_states_position s)"
  shows "\<exists>s'. publishJointState_loop d i s = Inr s'
     \<and> length (joint_states_position s') = length (joint_states_position s)
     \<and> (\<forall>k. joint_states_position s' ! k
            = (if i \<le> k \<and> k < length d then d ! k else joint_states_position s ! k))"
  using assms
proof (induction d i s rule: publishJointState_loop.induct)
  case (1 d i s)
  show ?case
  proof (cases "i < length d")
    case False
    then show ?thesis by (subst publishJointState_loop.simps) auto
  next
    case True
    with "1.prems" have a: "\<not> length (joint_states_position s) \<le> i" by simp
    let ?s2 = "s\<lparr>joint_states_position := (joint_states_position s)[i := d ! i]\<rparr>"
    have p: "length d \<le> length (joint_states_position ?s2)" using "1.prems" by simp
    from "1.IH" [OF True a p] obtain s' where
      r: "publishJointState_loop d (i + 1) ?s2 = Inr s'"
      and l: "length (joint_states_position s') = length (joint_states_position ?s2)"
      and n: "\<forall>k. joint_states_position s' ! k
            = (if i + 1 \<le> k \<and> k < length d then d ! k else joint_states_position ?s2 ! k)"
      by blast
    have e: "publishJointState_loop d i s = Inr s'"
      using True a r by (subst publishJointState_loop.simps) simp
    have n': "\<forall>k. joint_states_position s' ! k
            = (if i \<le> k \<and> k < length d then d ! k else joint_states_position s ! k)"
    proof
      fix k
      show "joint_states_position s' ! k
            = (if i \<le> k \<and> k < length d then d ! k else joint_states_position s ! k)"
        using n [rule_format, of k] a True by (cases "k = i") auto
    qed
    from e l n' show ?thesis by simp
  qed
qed

lemma publishJointStateFromAlMotion_ok:
  assumes "motion s" "length d \<le> length (joint_states_position s)"
  shows "publishJointStateFromAlMotion d s =
     Inr (s\<lparr>joint_states_position := d @ drop (length d) (joint_states_position s),
            trace := trace s @ [GetAngles ''Body'',
               PublishJointState (d @ drop (length d) (joint_states_position s))]\<rparr>)"
proof -
  let ?s0 = "call (GetAngles ''Body'') s"
  have p: "length d \<le> length (joint_states_position ?s0)"
    using assms by (simp add: call_def)
  from publishJointState_loop_ok [OF p, of 0] obtain s' where
    r: "publishJointState_loop d 0 ?s0 = Inr s'"
    and l: "length (joint_states_position s') = length (joint_states_position ?s0)"
    and n: "\<forall>k. joint_states_position s' ! k
            = (if 0 \<le> k \<and> k < length d then d ! k else joint_states_position ?s0 ! k)"
    by blast
  have P: "joint_states_position s' = d @ drop (length d) (joint_states_position s)"
  proof (rule nth_equalityI)
    show "length (joint_states_position s')
            = length (d @ drop (length d) (joint_states_position s))"
      using l assms by (simp add: call_def)
  next
    fix k assume "k < length (joint_states_position s')"
    then show "joint_states_position s' ! k
                 = (d @ drop (length d) (joint_states_position s)) ! k"
      using n [rule_format, of k] assms by (auto simp: nth_append call_def)
  qed
  from publishJointState_loop_frame [OF r] P
  have "s' = ?s0\<lparr>joint_states_position := d @ drop (length d) (joint_states_position s)\<rparr>"
    by simp
  with r assms(1) show ?thesis
    by (simp add: publishJointStateFromAlMotion_def call_def)
qed

lemma length_ctrl_writes:
  "length (foldl (\<lambda>cs (i, v). cs[i := v]) xs ws) = length xs"
  by (induction ws arbitrary: xs) (auto split: prod.splits)

lemma controllerLoop_body_stopping:
  assumes "ros_ok c" "is_connected s" "\<not> diag_ok c" "cycle_ready c s"
  shows "controllerLoop_body c s =
    (let s5 = s\<lparr>joint_angles := cycle_measured c s,
                 joint_commands := cycle_commands c s,
                 stiffness_data := 0,
                 is_connected := False,
                 trace := trace s @ [PublishStiffness (stiffness_data s), MemoryGetListData,
                                     DiagnosticsPublish] @ stop_events s @ [ManagerUpdate]\<rparr>
     in if update_throws c then Return s5
        else Continue (s5\<lparr>joint_states_position := cycle_positions c s,
                          trace := trace s5 @ cycle_write c s
                             @ [GetAngles ''Body'', PublishJointState (cycle_positions c s),
                                RateSleep]\<rparr>))"
proof -
  let ?N = "length (joint_commands s)"
  from assms(4) have rd: "memory s" "diagnostics s" "manager s" "motion s"
    "use_dcm s \<longrightarrow> dcm s" "length (joint_angles s) = ?N" "?N \<le> length (sensor c)"
    "length (body_angles c) \<le> length (joint_states_position s)"
    by (simp_all add: cycle_ready_def)
  define s1 where "s1 = call (PublishStiffness (stiffness_data s)) s"
  define s2 where "s2 = s1\<lparr>joint_angles := cycle_measured c s,
      joint_commands := cycle_measured c s, trace := trace s1 @ [MemoryGetListData]\<rparr>"
  have r2: "readJoints (sensor c) s1 = Inr s2"
    using readJoints_ok [of s1 "sensor c"] rd
    by (simp add: s1_def s2_def call_def cycle_measured_def)
  define s3 where "s3 = call DiagnosticsPublish s2"
  have se: "stop_events s3 = stop_events s"
    by (simp add: stop_events_def s3_def s2_def s1_def call_def)
  define s4 where "s4 = s3\<lparr>stiffness_data := 0, is_connected := False,
      trace := trace s3 @ stop_events s\<rparr>"
  have r4: "stopService (stop_accepted c) s3 = Inr s4"
    using rd se by (simp add: stopService_eq s4_def s3_def s2_def s1_def call_def)
  define s5 where "s5 = controllers_update (ctrl_writes c) s4"
  have e5: "s5 = s\<lparr>joint_angles := cycle_measured c s,
                 joint_commands := cycle_commands c s,
                 stiffness_data := 0,
                 is_connected := False,
                 trace := trace s @ [PublishStiffness (stiffness_data s), MemoryGetListData,
                                     DiagnosticsPublish] @ stop_events s @ [ManagerUpdate]\<rparr>"
    by (simp add: s5_def s4_def s3_def s2_def s1_def call_def controllers_update_def
          cycle_commands_def)
  have d2: "diagnostics s2" using rd by (simp add: s2_def s1_def call_def)
  have m4: "manager s4" using rd by (simp add: s4_def s3_def s2_def s1_def call_def)
  have body: "controllerLoop_body c s =
     (if update_throws c then Return s5
      else case writeJoints s5 of
             Inl (f, s') \<Rightarrow> Fault f s'
           | Inr s6 \<Rightarrow>
               (case publishJointStateFromAlMotion (body_angles c) s6 of
                  Inl (f, s') \<Rightarrow> Fault f s'
                | Inr s7 \<Rightarrow> Continue (call RateSleep s7)))"
    using assms(1,2,3) r2 d2 r4 m4
    by (simp add: controllerLoop_body_def Let_def s1_def [symmetric] s3_def [symmetric]
          s5_def [symmetric])
  show ?thesis
  proof (cases "update_throws c")
    case True
    with body e5 show ?thesis by (simp add: Let_def)
  next
    case False
    have lm: "length (cycle_measured c s) = ?N" using rd by (simp add: cycle_measured_def)
    have lc: "length (cycle_commands c s) = ?N"
      using lm by (simp add: cycle_commands_def length_ctrl_writes)
    have w: "writeJoints s5 = Inr (s5\<lparr>trace := trace s5 @ cycle_write c s\<rparr>)"
    proof -
      have h1: "length (joint_angles s5) = length (joint_commands s5)"
        using lm lc by (simp add: e5)
      have h2: "if use_dcm s5 then dcm s5 else motion s5" using rd by (simp add: e5)
      have c: "(\<exists>i < length (joint_commands s5).
            double_gt (double_fabs (double_sub (joint_commands s5 ! i) (joint_angles s5 ! i)))
                (joint_precision s5))
          = (\<exists>i < ?N.
              double_gt (double_fabs (double_sub (cycle_commands c s ! i) (cycle_measured c s ! i)))
              (joint_precision s))"
        using lc by (simp add: e5)
      show ?thesis
      proof (cases "\<exists>i < ?N.
              double_gt (double_fabs (double_sub (cycle_commands c s ! i) (cycle_measured c s ! i)))
          (joint_precision s)")
        case True
        with c have "\<exists>i < length (joint_commands s5).
            double_gt (double_fabs (double_sub (joint_commands s5 ! i) (joint_angles s5 ! i)))
                (joint_precision s5)" by simp
        with writeJoints_eq [OF h1 h2]
        have "writeJoints s5 = Inr (call (if use_dcm s5 then DcmWriteJoints (joint_commands s5)
                     else MotionWriteJoints (joint_commands s5)) s5)"
          by (simp only: if_True)
        moreover have "cycle_write c s = [if use_dcm s then DcmWriteJoints (cycle_commands c s)
            else MotionWriteJoints (cycle_commands c s)]"
          using True by (simp only: cycle_write_def if_True)
        moreover have "use_dcm s5 = use_dcm s" "joint_commands s5 = cycle_commands c s"
          by (simp_all add: e5)
        ultimately show ?thesis by (simp add: call_def)
      next
        case False
        with c have "\<not> (\<exists>i < length (joint_commands s5).
            double_gt (double_fabs (double_sub (joint_commands s5 ! i) (joint_angles s5 ! i)))
                (joint_precision s5))" by simp
        with writeJoints_eq [OF h1 h2] have "writeJoints s5 = Inr s5"
          by (simp only: if_False)
        moreover have "cycle_write c s = []" using False by (simp only: cycle_write_def if_False)
        ultimately show ?thesis by simp
      qed
    qed
    define s6 where "s6 = s5\<lparr>trace := trace s5 @ cycle_write c s\<rparr>"
    have p: "publishJointStateFromAlMotion (body_angles c) s6 =
       Inr (s6\<lparr>joint_states_position := cycle_positions c s,
              trace := trace s6 @ [GetAngles ''Body'',
                                   PublishJointState (cycle_positions c s)]\<rparr>)"
      using publishJointStateFromAlMotion_ok [of s6 "body_angles c"] rd
      by (simp add: s6_def e5 cycle_positions_def)
    from False body w p have "controllerLoop_body c s =
       Continue (call RateSleep (s6\<lparr>joint_states_position := cycle_positions c s,
              trace := trace s6 @ [GetAngles ''Body'',
                                   PublishJointState (cycle_positions c s)]\<rparr>))"
      by (simp add: s6_def [symmetric])
    with False show ?thesis by (simp add: Let_def call_def s6_def e5)
  qed
qed

subsection \<open>The concrete robot\<close>

lemmas double_eval = round_to_double_def scale_down.simps scale_up.simps
  round_half_even_def Let_def

lemma round_to_double_values:
  "round_to_double (1 / 10) = Finite (3602879701896397 / 2 ^ 55)"
  "round_to_double (1 / 2) = Finite (1 / 2)"
  "round_to_double (1 + 1 / 2 ^ 52 - 1 / 2 ^ 53) = Finite 1"
  by (simp_all add: double_eval)

lemma tolower_Nao:
  "tolower CHR ''N'' = CHR ''n''" "tolower CHR ''a'' = CHR ''a''"
  "tolower CHR ''o'' = CHR ''o''"
  by code_simp+

lemmas eval_simps = connect_report_def connect_def connect_wake_def connect_wrappers_def
  loadParams_def getParam_def subscribe_def setStiffness_def stopService_def
  initializeControllers_def initializeControllers_loop.simps to_int32_def resize_def
  ignoreMimicJoints_def ignoreMimicJoints_loop.simps is_mimic_def
  call_def Let_def Robot_def isConnected_def tolower_Nao numeral_2_eq_2
  nao_backend_def asleep_backend_def stiffness_rejecting_backend_def
  manager_throwing_backend_def handle_throwing_backend_def

lemma connect_nao: "connect nao_backend Robot = Inr (True, nao_connected)"
  by (simp add: eval_simps nao_connected_def)

lemma nao_connected_reachable: "reachable nao_connected"
  using reachable.connected [OF reachable.constructed connect_nao] .

lemma nao_ready:
  "ros_ok failing_cycle" "is_connected nao_connected" "\<not> diag_ok failing_cycle"
  "cycle_ready failing_cycle nao_connected"
  "ros_ok throwing_cycle" "\<not> diag_ok throwing_cycle"
  "cycle_ready throwing_cycle nao_connected"
  by (simp_all add: failing_cycle_def throwing_cycle_def nao_connected_def cycle_ready_def
        Robot_def)

lemma nao_connected_fields:
  "joint_precision nao_connected = round_to_double (1 / 10)"
  "length (joint_commands nao_connected) = 2"
  "use_dcm nao_connected = False" "stiffness_data nao_connected = 1"
  "stop_events nao_connected
      = [StiffnessInterpolation [''LArm'', ''RArm''] 0 1, NodeHandleShutdown, RosShutdown]"
  by (simp_all add: nao_connected_def Robot_def stop_events_def)

lemma failing_cycle_values:
  "cycle_measured failing_cycle nao_connected = [Finite (1 / 2), Finite (1 / 4)]"
  "cycle_commands failing_cycle nao_connected = [Finite 1, Finite (1 / 4)]"
  "cycle_positions failing_cycle nao_connected = [Finite 0, Finite (1 / 2), Finite (1 / 4)]"
  "cycle_measured throwing_cycle nao_connected = [Finite (1 / 2), Finite (1 / 4)]"
  "cycle_commands throwing_cycle nao_connected = [Finite 1, Finite (1 / 4)]"
  by (simp_all add: cycle_measured_def cycle_commands_def cycle_positions_def
        failing_cycle_def throwing_cycle_def nao_connected_def Robot_def)

lemma failing_cycle_write:
  "cycle_write failing_cycle nao_connected = [MotionWriteJoints [Finite 1, Finite (1 / 4)]]"
proof -
  have "\<exists>i < length (joint_commands nao_connected).
          double_gt (double_fabs (double_sub (cycle_commands failing_cycle nao_connected ! i)
                                              (cycle_measured failing_cycle nao_connected ! i)))
            (joint_precision nao_connected)"
    by (rule exI [of _ 0])
       (simp add: failing_cycle_values nao_connected_fields round_to_double_values)
  then have "cycle_write failing_cycle nao_connected =
      [if use_dcm nao_connected then DcmWriteJoints (cycle_commands failing_cycle nao_connected)
       else MotionWriteJoints (cycle_commands failing_cycle nao_connected)]"
    by (simp only: cycle_write_def if_True)
  then show ?thesis by (simp add: failing_cycle_values nao_connected_fields)
qed

lemma failing_cycle_pass:
  "controllerLoop_body failing_cycle nao_connected =
     Continue (nao_connected\<lparr>joint_angles := [Finite (1 / 2), Finite (1 / 4)],
               joint_commands := [Finite 1, Finite (1 / 4)],
               stiffness_data := 0, is_connected := False,
               joint_states_position := [Finite 0, Finite (1 / 2), Finite (1 / 4)],
               trace := trace nao_connected @
                 [PublishStiffness 1, MemoryGetListData, DiagnosticsPublish,
                  StiffnessInterpolation [''LArm'', ''RArm''] 0 1,
                  NodeHandleShutdown, RosShutdown, ManagerUpdate,
                  MotionWriteJoints [Finite 1, Finite (1 / 4)],
                  GetAngles ''Body'', PublishJointState [Finite 0, Finite (1 / 2), Finite (1 / 4)], RateSleep]\<rparr>)"
proof -
  have u: "\<not> update_throws failing_cycle" by (simp add: failing_cycle_def)
  from controllerLoop_body_stopping [OF nao_ready(1) nao_ready(2) nao_ready(3) nao_ready(4)] u
  show ?thesis
    by (simp add: Let_def failing_cycle_write failing_cycle_values nao_connected_fields)
qed

subsection \<open>The claims\<close>

text \<open>
  C9. \<open>setStiffness\<close> stores the requested level in the published stiffness value before
  it asks the backend: when the motion wrapper exists and the backend rejects the
  interpolation request, the function returns false, and the published value is already
  the requested level, whatever it was before. The request itself was sent with that level.
\<close>

theorem setStiffness_not_atomic:
  assumes "motion s"
  shows "\<exists>s'. setStiffness False level s = Inr (False, s')
           \<and> stiffness_data s' = level
           \<and> trace s' = trace s @ [StiffnessInterpolation (motor_groups s) level 1]"
  using assms by (simp add: setStiffness_def call_def Let_def)

theorem setStiffness_not_atomic_witness:
  "motion (Robot\<lparr>motion := True\<rparr>)
   \<and> (\<exists>s'. setStiffness False 1 (Robot\<lparr>motion := True\<rparr>) = Inr (False, s')
           \<and> stiffness_data s' = 1 \<and> stiffness_data (Robot\<lparr>motion := True\<rparr>) = 0
           \<and> trace s' = trace (Robot\<lparr>motion := True\<rparr>)
                @ [StiffnessInterpolation (motor_groups (Robot\<lparr>motion := True\<rparr>)) 1 1])"
  using setStiffness_not_atomic [of "Robot\<lparr>motion := True\<rparr>" 1]
  by (simp add: Robot_def)

text \<open>
  C5. With the low-level path active (\<open>use_dcm_\<close> set), one call of \<open>commandVelocity\<close>
  makes exactly these calls on the motion wrapper, in this order and before it returns:
  arm stiffness to 0, the move, arm stiffness to 1 (with the one-second sleep between
  the move and the second stiffness call). With the low-level path inactive it makes
  the move alone and no arm-stiffness call. Nothing else of the robot object changes.
  The motion wrapper has to exist, as it does once \<open>connect\<close> has subscribed the callback.
\<close>

theorem commandVelocity_sequence:
  assumes "motion s"
  shows "\<exists>s'. commandVelocity msg s = Inr s'
     \<and> trace s' = trace s @
         (if use_dcm s
          then [SetStiffnessArms 0 1, MoveTo (linear_x msg) (linear_y msg) (angular_z msg),
                Sleep 1, SetStiffnessArms 1 1]
          else [MoveTo (linear_x msg) (linear_y msg) (angular_z msg), Sleep 1])
     \<and> filter arm_or_motion (drop (length (trace s)) (trace s')) =
         (if use_dcm s
          then [SetStiffnessArms 0 1, MoveTo (linear_x msg) (linear_y msg) (angular_z msg),
                SetStiffnessArms 1 1]
          else [MoveTo (linear_x msg) (linear_y msg) (angular_z msg)])
     \<and> s'\<lparr>trace := trace s\<rparr> = s"
  using assms by (simp add: commandVelocity_def call_def Let_def arm_or_motion_def)

theorem commandVelocity_sequence_witness:
  "motion (Robot\<lparr>motion := True, use_dcm := True\<rparr>)
   \<and> (\<exists>s'. commandVelocity
              \<lparr>linear_x = 1, linear_y = 0, linear_z = 0,
               angular_x = 0, angular_y = 0, angular_z = 2\<rparr>
              (Robot\<lparr>motion := True, use_dcm := True\<rparr>) = Inr s'
         \<and> trace s' = [SetStiffnessArms 0 1, MoveTo 1 0 2, Sleep 1, SetStiffnessArms 1 1]
         \<and> filter arm_or_motion (trace s')
             = [SetStiffnessArms 0 1, MoveTo 1 0 2, SetStiffnessArms 1 1])"
proof -
  let ?s = "Robot\<lparr>motion := True, use_dcm := True\<rparr>"
  let ?msg = "\<lparr>linear_x = 1, linear_y = 0, linear_z = 0,
                angular_x = 0, angular_y = 0, angular_z = 2\<rparr>"
  have m: "motion ?s" and d: "use_dcm ?s" and t: "trace ?s = []"
    by (simp_all add: Robot_def)
  from commandVelocity_sequence [OF m, of ?msg] obtain s' where
    r: "commandVelocity ?msg ?s = Inr s'"
    and tr: "trace s' = trace ?s @
         (if use_dcm ?s
          then [SetStiffnessArms 0 1, MoveTo (linear_x ?msg) (linear_y ?msg) (angular_z ?msg),
                Sleep 1, SetStiffnessArms 1 1]
          else [MoveTo (linear_x ?msg) (linear_y ?msg) (angular_z ?msg), Sleep 1])"
    and fl: "filter arm_or_motion (drop (length (trace ?s)) (trace s')) =
         (if use_dcm ?s
          then [SetStiffnessArms 0 1, MoveTo (linear_x ?msg) (linear_y ?msg) (angular_z ?msg),
                SetStiffnessArms 1 1]
          else [MoveTo (linear_x ?msg) (linear_y ?msg) (angular_z ?msg)])"
    by blast
  from tr d t have tr': "trace s' = [SetStiffnessArms 0 1, MoveTo 1 0 2, Sleep 1, SetStiffnessArms 1 1]"
    by simp
  from fl d t have fl': "filter arm_or_motion (trace s')
      = [SetStiffnessArms 0 1, MoveTo 1 0 2, SetStiffnessArms 1 1]"
    by simp
  from m r tr' fl' show ?thesis by blast
qed

text \<open>
  C4. \<open>stopService\<close> never faults, also when the motion wrapper was never created, and
  a second call right after the first returns as well and leaves the robot object as the
  first call left it (only the calls on the collaborators are made once more): the
  connected flag is false after either call. From every reachable state, the freshly
  constructed object included, the published stiffness is 0 after either call.
\<close>

theorem stopService_idempotent:
  "\<exists>s1 s2. stopService a s = Inr s1 \<and> stopService a' s1 = Inr s2
     \<and> s2\<lparr>trace := trace s1\<rparr> = s1
     \<and> \<not> isConnected s1 \<and> \<not> isConnected s2
     \<and> (reachable s \<longrightarrow> stiffness_data s1 = 0 \<and> stiffness_data s2 = 0)"
proof -
  let ?s1 = "s\<lparr>stiffness_data := (if motion s then 0 else stiffness_data s),
               is_connected := False, trace := trace s @ stop_events s\<rparr>"
  let ?s2 = "?s1\<lparr>stiffness_data := (if motion ?s1 then 0 else stiffness_data ?s1),
               is_connected := False, trace := trace ?s1 @ stop_events ?s1\<rparr>"
  have 1: "stopService a s = Inr ?s1" by (rule stopService_eq)
  have 2: "stopService a' ?s1 = Inr ?s2" by (rule stopService_eq)
  have 3: "?s2\<lparr>trace := trace ?s1\<rparr> = ?s1" by simp
  have 4: "\<not> isConnected ?s1 \<and> \<not> isConnected ?s2" by (simp add: isConnected_def)
  have 5: "reachable s \<longrightarrow> stiffness_data ?s1 = 0 \<and> stiffness_data ?s2 = 0"
    using reachable_limp [of s] by auto
  from 1 2 3 4 5 show ?thesis by blast
qed

theorem stopService_idempotent_witness:
  "reachable Robot \<and> \<not> motion Robot
   \<and> (\<exists>s1 s2. stopService True Robot = Inr s1 \<and> stopService True s1 = Inr s2
        \<and> s2\<lparr>trace := trace s1\<rparr> = s1
        \<and> \<not> isConnected s1 \<and> \<not> isConnected s2
        \<and> stiffness_data s1 = 0 \<and> stiffness_data s2 = 0)
   \<and> reachable nao_connected \<and> isConnected nao_connected
   \<and> stiffness_data nao_connected = 1
   \<and> (\<exists>s1 s2. stopService True nao_connected = Inr s1 \<and> stopService False s1 = Inr s2
        \<and> s2\<lparr>trace := trace s1\<rparr> = s1
        \<and> \<not> isConnected s1 \<and> \<not> isConnected s2
        \<and> stiffness_data s1 = 0 \<and> stiffness_data s2 = 0)"
proof -
  have r: "reachable Robot" by (rule reachable.constructed)
  have m: "\<not> motion Robot" by (simp add: Robot_def)
  have c: "isConnected nao_connected" using nao_ready(2) by (simp add: isConnected_def)
  from stopService_idempotent [of True Robot True] r
  have 1: "\<exists>s1 s2. stopService True Robot = Inr s1 \<and> stopService True s1 = Inr s2
        \<and> s2\<lparr>trace := trace s1\<rparr> = s1
        \<and> \<not> isConnected s1 \<and> \<not> isConnected s2
        \<and> stiffness_data s1 = 0 \<and> stiffness_data s2 = 0"
    by blast
  from stopService_idempotent [of True nao_connected False] nao_connected_reachable
  have 2: "\<exists>s1 s2. stopService True nao_connected = Inr s1 \<and> stopService False s1 = Inr s2
        \<and> s2\<lparr>trace := trace s1\<rparr> = s1
        \<and> \<not> isConnected s1 \<and> \<not> isConnected s2
        \<and> stiffness_data s1 = 0 \<and> stiffness_data s2 = 0"
    by blast
  from r m 1 2 c nao_connected_reachable nao_connected_fields(4) show ?thesis by blast
qed

text \<open>
  C1, in the form the code satisfies. In a state whose measured-angle and command
  arrays have the same length, and whose wrapper for the chosen path exists,
  \<open>writeJoints\<close> makes a backend write if and only if some joint \<open>i\<close> has
  \<open>fabs(command i - measured i) > joint_precision\<close> as the code computes it, in binary64
  arithmetic: the difference is rounded to the nearest binary64 value, and a comparison
  with a not-a-number is false. The write goes through the DCM wrapper when \<open>use_dcm_\<close>
  is set and through the motion wrapper otherwise, and carries the whole command
  vector. When no computed difference exceeds the threshold the state is returned
  unchanged, without a fault.
\<close>

theorem writeJoints_iff:
  assumes "length (joint_angles s) = length (joint_commands s)"
    and "if use_dcm s then dcm s else motion s"
  shows "writeJoints s =
     Inr (if \<exists>i < length (joint_commands s).
               double_gt (double_fabs (double_sub (joint_commands s ! i) (joint_angles s ! i)))
                 (joint_precision s)
          then call (if use_dcm s then DcmWriteJoints (joint_commands s)
                     else MotionWriteJoints (joint_commands s)) s
          else s)"
  using assms by (rule writeJoints_eq)

theorem writeJoints_iff_witness:
  "(let s = Robot\<lparr>motion := True, joint_angles := [Finite 0, Finite 0],
                  joint_commands := [round_to_double (1 / 20), round_to_double (1 / 5)]\<rparr>;
        q = Robot\<lparr>motion := True, joint_angles := [Finite 0, Finite 0],
                  joint_commands := [round_to_double (1 / 20), round_to_double (1 / 20)]\<rparr>
    in length (joint_angles s) = length (joint_commands s)
       \<and> (if use_dcm s then dcm s else motion s)
       \<and> joint_precision s = round_to_double (1 / 10)
       \<and> writeJoints s
           = Inr (call (MotionWriteJoints [round_to_double (1 / 20), round_to_double (1 / 5)]) s)
       \<and> writeJoints q = Inr q)"
proof -
  let ?s = "Robot\<lparr>motion := True, joint_angles := [Finite 0, Finite 0],
                  joint_commands := [round_to_double (1 / 20), round_to_double (1 / 5)]\<rparr>"
  let ?q = "Robot\<lparr>motion := True, joint_angles := [Finite 0, Finite 0],
                  joint_commands := [round_to_double (1 / 20), round_to_double (1 / 20)]\<rparr>"
  have hs: "length (joint_angles ?s) = length (joint_commands ?s)"
    "if use_dcm ?s then dcm ?s else motion ?s" by (simp_all add: Robot_def)
  have hq: "length (joint_angles ?q) = length (joint_commands ?q)"
    "if use_dcm ?q then dcm ?q else motion ?q" by (simp_all add: Robot_def)
  have far: "double_gt (double_fabs (double_sub (round_to_double (1 / 5)) (Finite 0)))
               (round_to_double (1 / 10))"
    by (simp add: double_eval)
  have near: "\<not> double_gt (double_fabs (double_sub (round_to_double (1 / 20)) (Finite 0)))
               (round_to_double (1 / 10))"
    by (simp add: double_eval)
  have es: "\<exists>i < length (joint_commands ?s).
      double_gt (double_fabs (double_sub (joint_commands ?s ! i) (joint_angles ?s ! i)))
        (joint_precision ?s)"
    by (rule exI [of _ 1]) (simp add: Robot_def far)
  have nq: "\<not> (\<exists>i < length (joint_commands ?q).
      double_gt (double_fabs (double_sub (joint_commands ?q ! i) (joint_angles ?q ! i)))
        (joint_precision ?q))"
  proof
    assume "\<exists>i < length (joint_commands ?q).
      double_gt (double_fabs (double_sub (joint_commands ?q ! i) (joint_angles ?q ! i)))
        (joint_precision ?q)"
    then obtain i where i: "i < length (joint_commands ?q)"
      and g: "double_gt (double_fabs (double_sub (joint_commands ?q ! i) (joint_angles ?q ! i)))
        (joint_precision ?q)"
      by blast
    from i have "i = 0 \<or> i = 1" by (auto simp: Robot_def)
    then show False
    proof
      assume "i = 0" with g near show False by (simp add: Robot_def)
    next
      assume "i = 1" with g near show False by (simp add: Robot_def)
    qed
  qed
  have u: "use_dcm ?s = False"
    "joint_commands ?s = [round_to_double (1 / 20), round_to_double (1 / 5)]"
    by (simp_all add: Robot_def)
  have "writeJoints ?s = Inr (call (if use_dcm ?s then DcmWriteJoints (joint_commands ?s)
                     else MotionWriteJoints (joint_commands ?s)) ?s)"
    using writeJoints_iff [OF hs] es by (simp only: if_True)
  then have "writeJoints ?s
      = Inr (call (MotionWriteJoints [round_to_double (1 / 20), round_to_double (1 / 5)]) ?s)"
    by (simp only: u if_False)
  moreover have "writeJoints ?q = Inr ?q"
    using writeJoints_iff [OF hq] nq by (simp only: if_False)
  moreover have "joint_precision ?s = round_to_double (1 / 10)" by (simp add: Robot_def)
  ultimately show ?thesis using hs unfolding Let_def by blast
qed

text \<open>
  C1 read with the exact difference of the two numbers fails on the robot whose
  command is \<open>1 + 2^-52\<close>, whose measured angle is \<open>2^-53\<close> and whose precision is 1: the
  exact difference \<open>1 + 2^-53\<close> exceeds the precision, but the code computes the
  difference 1, which does not, and makes no write.
\<close>

theorem writeJoints_rounds_difference:
  "joint_commands rounding_robot = [Finite (1 + 1 / 2 ^ 52)]
   \<and> joint_angles rounding_robot = [Finite (1 / 2 ^ 53)]
   \<and> joint_precision rounding_robot = Finite 1
   \<and> \<bar>(1 + 1 / 2 ^ 52) - 1 / 2 ^ 53\<bar> > (1::real)
   \<and> writeJoints rounding_robot = Inr rounding_robot"
  by (simp add: rounding_robot_def Robot_def writeJoints_def writeJoints_changed.simps
        double_eval)


text \<open>
  C8, in the form the code satisfies. For a list of \<open>N\<close> joint names with \<open>N\<close> below
  \<open>2^31\<close>, the range of the \<open>int\<close> counter, \<open>initializeControllers\<close> returns, and afterwards
  each of the four arrays (measured angle, velocity, effort, command) has length exactly
  \<open>N\<close>, for \<open>N = 0\<close> too and whatever the arrays held before. When no call of the hardware
  interface throws, the result is true. When the result is true, for every index \<open>i\<close>
  whose name does not occur again later in the list the state handle registered under
  the \<open>i\<close>-th name points to index \<open>i\<close> of the angle, velocity and effort arrays, and the
  command handle registered under it to that state handle and index \<open>i\<close> of the command
  array; so for every index when the names are pairwise different.
\<close>

theorem initializeControllers_aligned:
  assumes "length names < 2 ^ 31"
  shows "\<exists>ok s'. initializeControllers throws names s = Inr (ok, s')
     \<and> length (joint_angles s') = length names
     \<and> length (joint_velocities s') = length names
     \<and> length (joint_efforts s') = length names
     \<and> length (joint_commands s') = length names
     \<and> ((\<forall>k. \<not> throws k) \<longrightarrow> ok)
     \<and> (ok \<longrightarrow> (\<forall>i < length names.
            (\<forall>k. i < k \<and> k < length names \<longrightarrow> names ! k \<noteq> names ! i) \<longrightarrow>
            jnt_state_interface s' (names ! i) = Some (JointStateHandle (names ! i) i i i)
            \<and> jnt_pos_interface s' (names ! i)
                = Some (JointHandle (JointStateHandle (names ! i) i i i) i)))
     \<and> (ok \<and> distinct names \<longrightarrow> (\<forall>i < length names.
            jnt_state_interface s' (names ! i) = Some (JointStateHandle (names ! i) i i i)
            \<and> jnt_pos_interface s' (names ! i)
                = Some (JointHandle (JointStateHandle (names ! i) i i i) i)))"
proof -
  let ?N = "length names"
  let ?s4 = "s\<lparr>joint_angles := resize ?N (joint_angles s),
               joint_velocities := resize ?N (joint_velocities s),
               joint_efforts := resize ?N (joint_efforts s),
               joint_commands := resize ?N (joint_commands s)\<rparr>"
  have n: "to_int32 ?N = int ?N" using assms by (rule to_int32_small)
  have u: "initializeControllers throws names s
             = initializeControllers_loop throws names (int ?N) 0 ?s4"
    by (simp add: initializeControllers_def n Let_def)
  from initializeControllers_loop_ok [of "int ?N" names 0 throws ?s4]
  obtain ok s' where
    r: "initializeControllers_loop throws names (int ?N) 0 ?s4 = Inr (ok, s')"
    and t: "(\<forall>k. \<not> throws k) \<longrightarrow> ok"
    and b: "ok \<longrightarrow> (\<forall>j. 0 \<le> j \<and> j < length names
              \<and> (\<forall>k. j < k \<and> k < length names \<longrightarrow> names ! k \<noteq> names ! j) \<longrightarrow>
            jnt_state_interface s' (names ! j) = Some (JointStateHandle (names ! j) j j j)
            \<and> jnt_pos_interface s' (names ! j)
                = Some (JointHandle (JointStateHandle (names ! j) j j j) j))"
    by auto
  from initializeControllers_loop_frame [OF r] obtain x y z where
    "s' = ?s4\<lparr>jnt_state_interface := x, jnt_pos_interface := y, interfaces := z\<rparr>"
    by (rule that)
  then have l: "length (joint_angles s') = ?N" "length (joint_velocities s') = ?N"
    "length (joint_efforts s') = ?N" "length (joint_commands s') = ?N"
    by (simp_all add: length_resize)
  from b have b1: "ok \<longrightarrow> (\<forall>i < length names.
            (\<forall>k. i < k \<and> k < length names \<longrightarrow> names ! k \<noteq> names ! i) \<longrightarrow>
            jnt_state_interface s' (names ! i) = Some (JointStateHandle (names ! i) i i i)
            \<and> jnt_pos_interface s' (names ! i)
                = Some (JointHandle (JointStateHandle (names ! i) i i i) i))"
    by simp
  have b2: "ok \<and> distinct names \<longrightarrow> (\<forall>i < length names.
            jnt_state_interface s' (names ! i) = Some (JointStateHandle (names ! i) i i i)
            \<and> jnt_pos_interface s' (names ! i)
                = Some (JointHandle (JointStateHandle (names ! i) i i i) i))"
  proof (intro impI allI)
    fix i assume a: "ok \<and> distinct names" and i: "i < length names"
    from a i have "\<forall>k. i < k \<and> k < length names \<longrightarrow> names ! k \<noteq> names ! i"
      by (auto simp: nth_eq_iff_index_eq)
    with b1 a i show "jnt_state_interface s' (names ! i)
              = Some (JointStateHandle (names ! i) i i i)
            \<and> jnt_pos_interface s' (names ! i)
                = Some (JointHandle (JointStateHandle (names ! i) i i i) i)"
      by blast
  qed
  from u r l t b1 b2 show ?thesis by simp
qed

theorem initializeControllers_aligned_witness:
  "length [''LShoulderPitch'', ''RShoulderPitch''] < 2 ^ 31
   \<and> distinct [''LShoulderPitch'', ''RShoulderPitch'']
   \<and> (\<exists>s'. initializeControllers never_throws [''LShoulderPitch'', ''RShoulderPitch'']
               Robot = Inr (True, s')
         \<and> length (joint_angles s') = 2 \<and> length (joint_velocities s') = 2
         \<and> length (joint_efforts s') = 2 \<and> length (joint_commands s') = 2
         \<and> jnt_state_interface s' ''LShoulderPitch''
             = Some (JointStateHandle ''LShoulderPitch'' 0 0 0)
         \<and> jnt_state_interface s' ''RShoulderPitch''
             = Some (JointStateHandle ''RShoulderPitch'' 1 1 1)
         \<and> jnt_pos_interface s' ''LShoulderPitch''
             = Some (JointHandle (JointStateHandle ''LShoulderPitch'' 0 0 0) 0)
         \<and> jnt_pos_interface s' ''RShoulderPitch''
             = Some (JointHandle (JointStateHandle ''RShoulderPitch'' 1 1 1) 1))"
proof -
  let ?names = "[''LShoulderPitch'', ''RShoulderPitch'']"
  have h: "length ?names < 2 ^ 31" by simp
  have d: "distinct ?names" by simp
  from initializeControllers_aligned [OF h, of never_throws Robot] obtain ok s' where
    r: "initializeControllers never_throws ?names Robot = Inr (ok, s')"
    and l: "length (joint_angles s') = length ?names"
      "length (joint_velocities s') = length ?names"
      "length (joint_efforts s') = length ?names"
      "length (joint_commands s') = length ?names"
    and t: "(\<forall>k. \<not> never_throws k) \<longrightarrow> ok"
    and b: "ok \<and> distinct ?names \<longrightarrow> (\<forall>i < length ?names.
            jnt_state_interface s' (?names ! i) = Some (JointStateHandle (?names ! i) i i i)
            \<and> jnt_pos_interface s' (?names ! i)
                = Some (JointHandle (JointStateHandle (?names ! i) i i i) i))"
    by blast
  from t have ok: ok by (simp add: never_throws_def)
  from b ok d have a: "\<forall>i < length ?names.
            jnt_state_interface s' (?names ! i) = Some (JointStateHandle (?names ! i) i i i)
            \<and> jnt_pos_interface s' (?names ! i)
                = Some (JointHandle (JointStateHandle (?names ! i) i i i) i)"
    by blast
  from a [rule_format, of 0] a [rule_format, of 1]
  have "jnt_state_interface s' ''LShoulderPitch''
             = Some (JointStateHandle ''LShoulderPitch'' 0 0 0)"
    "jnt_state_interface s' ''RShoulderPitch''
             = Some (JointStateHandle ''RShoulderPitch'' 1 1 1)"
    "jnt_pos_interface s' ''LShoulderPitch''
             = Some (JointHandle (JointStateHandle ''LShoulderPitch'' 0 0 0) 0)"
    "jnt_pos_interface s' ''RShoulderPitch''
             = Some (JointHandle (JointStateHandle ''RShoulderPitch'' 1 1 1) 1)"
    by simp_all
  with r ok l h d show ?thesis by simp
qed

text \<open>
  C8 in its original wording fails on a list that names a joint twice: the
  initialization returns true, the arrays have length 2, and the only handle registered
  under the name points to index 1, so that index 0 is bound to no name. It fails as
  well on a list of \<open>2^31\<close> names, whose count is negative as an \<open>int\<close>: \<open>reserve\<close> throws
  and no array is resized.
\<close>

theorem initializeControllers_duplicate_name:
  "initializeControllers never_throws [''HeadYaw'', ''HeadYaw''] Robot
     = Inr (True,
            Robot\<lparr>joint_angles := [Finite 0, Finite 0],
                   joint_velocities := [Finite 0, Finite 0],
                   joint_efforts := [Finite 0, Finite 0],
                   joint_commands := [Finite 0, Finite 0],
                   jnt_state_interface := [''HeadYaw'' \<mapsto> JointStateHandle ''HeadYaw'' 1 1 1],
                   jnt_pos_interface :=
                     [''HeadYaw'' \<mapsto> JointHandle (JointStateHandle ''HeadYaw'' 1 1 1) 1],
                   interfaces := {PositionJointInterface, JointStateInterface}\<rparr>)
   \<and> initializeControllers never_throws (replicate (2 ^ 31) ''HeadYaw'') Robot
     = Inl (LengthError, Robot)"
  by (simp add: initializeControllers_def initializeControllers_loop.simps to_int32_def
        resize_def never_throws_def Robot_def Let_def numeral_2_eq_2)

text \<open>
  C6. \<open>readJoints\<close> compares no lengths. With two joints and a backend read that
  returns the single value 1.5, it writes 1.5 into slot 0 of the measured-angle array
  and of the command array, and then reads the returned vector past its end: the run
  ends in the fault \<open>OutOfRange\<close> with the first slot of both arrays already overwritten.
  No check precedes the first write.
\<close>

theorem readJoints_short_read:
  "readJoints [Finite (3 / 2)]
     (Robot\<lparr>memory := True, joint_angles := [Finite 0, Finite 0],
            joint_commands := [Finite 0, Finite 0]\<rparr>)
   = Inl (OutOfRange,
          Robot\<lparr>memory := True, joint_angles := [Finite (3 / 2), Finite 0],
                 joint_commands := [Finite (3 / 2), Finite 0],
                 trace := [MemoryGetListData]\<rparr>)"
  by (simp add: readJoints_def readJoints_loop.simps call_def Robot_def Let_def)

text \<open>
  C7. When the loop has run any number of passes and the state at the top of the next
  pass is not connected, the loop returns to its caller with exactly that state: the
  pass makes no call at all, so no backend read and no backend write, whatever the
  pass would have met.
\<close>

theorem controllerLoop_exits_when_disconnected:
  assumes "controllerLoop cs1 s = Running s1" and "\<not> isConnected s1"
  shows "controllerLoop (cs1 @ c # cs2) s = Returned s1"
proof -
  from assms(2) have "controllerLoop_body c s1 = Return s1"
    by (simp add: controllerLoop_body_def isConnected_def)
  then have "controllerLoop (c # cs2) s1 = Returned s1" by simp
  with controllerLoop_append [OF assms(1), of "c # cs2"] show ?thesis by simp
qed

theorem controllerLoop_exits_when_disconnected_witness:
  "\<exists>s1. controllerLoop [failing_cycle] nao_connected = Running s1
        \<and> \<not> isConnected s1
        \<and> isConnected nao_connected
        \<and> length (trace s1) = length (trace nao_connected) + 11
        \<and> controllerLoop ([failing_cycle] @ failing_cycle # [failing_cycle]) nao_connected
            = Returned s1"
proof -
  from failing_cycle_pass obtain s1 where
    b: "controllerLoop_body failing_cycle nao_connected = Continue s1"
    and d: "\<not> is_connected s1"
    and l: "length (trace s1) = length (trace nao_connected) + 11"
    by simp
  from b have r: "controllerLoop [failing_cycle] nao_connected = Running s1" by simp
  from d have n: "\<not> isConnected s1" by (simp add: isConnected_def)
  have c: "isConnected nao_connected" using nao_ready(2) by (simp add: isConnected_def)
  from controllerLoop_exits_when_disconnected [OF r n, of failing_cycle "[failing_cycle]"]
    r n c l
  show ?thesis by blast
qed

text \<open>
  C10, in the form the code satisfies. In a pass that starts connected and meets no
  fault, when the diagnostics publish reports not-ok, \<open>stopService\<close> is called (its calls follow the
  diagnostics publish, and the connected flag is false from then on) and the pass still
  calls the controller update. When the update does not throw, the pass goes on with
  \<open>writeJoints\<close> (a backend write when a command is further than the precision from its
  measured angle), the joint-state publish and the sleep, and the loop returns at the top
  of the next pass, with the state the pass left. When the update throws, the loop
  returns from the \<open>catch\<close> in the same pass, and the update is the last call made.
\<close>

theorem controllerLoop_diagnostics_failure:
  assumes "ros_ok c" "isConnected s" "\<not> diag_ok c" "cycle_ready c s"
  shows "let before = trace s @ [PublishStiffness (stiffness_data s), MemoryGetListData,
                                 DiagnosticsPublish] @ stop_events s @ [ManagerUpdate]
         in if update_throws c
            then \<exists>s'. controllerLoop (c # cs) s = Returned s' \<and> \<not> isConnected s'
                   \<and> trace s' = before
            else \<exists>s'. controllerLoop_body c s = Continue s' \<and> \<not> isConnected s'
                   \<and> trace s' = before @ cycle_write c s
                        @ [GetAngles ''Body'', PublishJointState (cycle_positions c s),
                           RateSleep]
                   \<and> controllerLoop (c # c' # cs) s = Returned s'"
proof -
  from assms(2) have con: "is_connected s" by (simp add: isConnected_def)
  note b = controllerLoop_body_stopping [OF assms(1) con assms(3) assms(4)]
  show ?thesis
  proof (cases "update_throws c")
    case True
    with b show ?thesis by (simp add: Let_def isConnected_def)
  next
    case False
    with b obtain s' where r: "controllerLoop_body c s = Continue s'"
      and d: "\<not> is_connected s'"
      and t: "trace s' = (trace s @ [PublishStiffness (stiffness_data s), MemoryGetListData,
                                 DiagnosticsPublish] @ stop_events s @ [ManagerUpdate])
                 @ cycle_write c s
                 @ [GetAngles ''Body'', PublishJointState (cycle_positions c s), RateSleep]"
      by (simp add: Let_def)
    from d have "controllerLoop_body c' s' = Return s'"
      by (simp add: controllerLoop_body_def)
    with r have "controllerLoop (c # c' # cs) s = Returned s'" by simp
    with False r d t show ?thesis by (simp add: Let_def isConnected_def)
  qed
qed

theorem controllerLoop_diagnostics_failure_witness:
  "ros_ok failing_cycle \<and> isConnected nao_connected \<and> \<not> diag_ok failing_cycle
   \<and> cycle_ready failing_cycle nao_connected \<and> \<not> update_throws failing_cycle
   \<and> (\<exists>s'. controllerLoop_body failing_cycle nao_connected = Continue s'
         \<and> \<not> isConnected s'
         \<and> trace s' = trace nao_connected @
              [PublishStiffness 1, MemoryGetListData, DiagnosticsPublish,
               StiffnessInterpolation [''LArm'', ''RArm''] 0 1,
               NodeHandleShutdown, RosShutdown, ManagerUpdate,
               MotionWriteJoints [Finite 1, Finite (1 / 4)],
               GetAngles ''Body'', PublishJointState [Finite 0, Finite (1 / 2), Finite (1 / 4)], RateSleep]
         \<and> controllerLoop [failing_cycle, failing_cycle] nao_connected = Returned s')"
proof -
  have c: "isConnected nao_connected" using nao_ready(2) by (simp add: isConnected_def)
  have u: "\<not> update_throws failing_cycle" by (simp add: failing_cycle_def)
  from controllerLoop_diagnostics_failure
         [OF nao_ready(1) c nao_ready(3) nao_ready(4), where c' = failing_cycle and cs = "[]"] u
  obtain s' where "controllerLoop_body failing_cycle nao_connected = Continue s'"
    "\<not> isConnected s'"
    "trace s' = (trace nao_connected @ [PublishStiffness (stiffness_data nao_connected),
         MemoryGetListData, DiagnosticsPublish] @ stop_events nao_connected @ [ManagerUpdate])
       @ cycle_write failing_cycle nao_connected
       @ [GetAngles ''Body'', PublishJointState (cycle_positions failing_cycle nao_connected),
          RateSleep]"
    "controllerLoop [failing_cycle, failing_cycle] nao_connected = Returned s'"
    by (auto simp: Let_def)
  then have "controllerLoop_body failing_cycle nao_connected = Continue s'
         \<and> \<not> isConnected s'
         \<and> trace s' = trace nao_connected @
              [PublishStiffness 1, MemoryGetListData, DiagnosticsPublish,
               StiffnessInterpolation [''LArm'', ''RArm''] 0 1,
               NodeHandleShutdown, RosShutdown, ManagerUpdate,
               MotionWriteJoints [Finite 1, Finite (1 / 4)],
               GetAngles ''Body'', PublishJointState [Finite 0, Finite (1 / 2), Finite (1 / 4)], RateSleep]
         \<and> controllerLoop [failing_cycle, failing_cycle] nao_connected = Returned s'"
    by (simp add: nao_connected_fields failing_cycle_values failing_cycle_write)
  with nao_ready(1) c nao_ready(3) nao_ready(4) u show ?thesis by blast
qed

text \<open>
  C10 in its original wording fails on a pass in which the diagnostics report not-ok and the
  controller update throws: the loop returns in that very pass, after the update, and
  the pass makes neither a backend write nor a joint-state publish.
\<close>

theorem controllerLoop_returns_from_catch:
  "controllerLoop_body throwing_cycle nao_connected =
     Return (nao_connected\<lparr>joint_angles := [Finite (1 / 2), Finite (1 / 4)],
               joint_commands := [Finite 1, Finite (1 / 4)],
               stiffness_data := 0, is_connected := False,
               trace := trace nao_connected @
                 [PublishStiffness 1, MemoryGetListData, DiagnosticsPublish,
                  StiffnessInterpolation [''LArm'', ''RArm''] 0 1,
                  NodeHandleShutdown, RosShutdown, ManagerUpdate]\<rparr>)"
proof -
  have u: "update_throws throwing_cycle" by (simp add: throwing_cycle_def)
  from controllerLoop_body_stopping [OF nao_ready(5) nao_ready(2) nao_ready(6) nao_ready(7)] u
  show ?thesis
    by (simp add: Let_def failing_cycle_values nao_connected_fields)
qed

text \<open>
  C3. On a freshly constructed robot whose backend reports the robot awake, \<open>connect\<close>
  returns false when the stiffness request is rejected, when the constructor of the
  controller manager throws, and when the first registration of a handle throws, and in
  all three cases \<open>isConnected\<close> answers true afterwards. Only when the robot is not awake
  does \<open>connect\<close> return false with \<open>isConnected\<close> false.
\<close>

theorem connect_late_failure_stays_connected:
  "connect_report stiffness_rejecting_backend Robot = Some (False, True)
   \<and> connect_report manager_throwing_backend Robot = Some (False, True)
   \<and> connect_report handle_throwing_backend Robot = Some (False, True)
   \<and> connect_report asleep_backend Robot = Some (False, False)"
  by (simp add: eval_simps)


end
